theory Spec2Isabelle
  imports Main
begin

section \<open>Strings as the handlers use them\<close>

text \<open>
  A Python \<open>str\<close> is modelled as a \<open>string\<close> (a list of 8-bit characters) holding ASCII
  text. The character classes below are the ASCII members of the classes Python uses:
  \<open>str.strip()\<close> removes the characters for which \<open>str.isspace\<close> holds (tab, line feed,
  vertical tab, form feed, carriage return, the four separators 0x1C..0x1F and the space),
  and \<open>\d\<close> and \<open>[0-9]\<close> are the ten decimal digits.
\<close>

definition isspace :: "char \<Rightarrow> bool" where
  "isspace c = (c \<in> set [CHR 0x09, CHR 0x0A, CHR 0x0B, CHR 0x0C, CHR 0x0D,
                            CHR 0x1C, CHR 0x1D, CHR 0x1E, CHR 0x1F, CHR 0x20])"

definition isdigit :: "char \<Rightarrow> bool" where
  "isdigit c = (c \<in> set ''0123456789'')"

text \<open>\<open>s.strip()\<close>: the leading and the trailing run of whitespace are dropped.\<close>

definition strip :: "string \<Rightarrow> string" where
  "strip s = rev (dropWhile isspace (rev (dropWhile isspace s)))"

text \<open>\<open>s.lower()\<close> on ASCII text.\<close>

definition lower_char :: "char \<Rightarrow> char" where
  "lower_char c =
     (case map_of (zip ''ABCDEFGHIJKLMNOPQRSTUVWXYZ'' ''abcdefghijklmnopqrstuvwxyz'') c of
        None \<Rightarrow> c
      | Some d \<Rightarrow> d)"

definition lower :: "string \<Rightarrow> string" where
  "lower s = map lower_char s"

text \<open>\<open>s.replace(a, b)\<close> for a one-character \<open>a\<close>: every occurrence is replaced by
  the string \<open>b\<close> (\<open>b\<close> is empty in \<open>replace(" ", "")\<close>).\<close>

definition replace_char :: "char \<Rightarrow> string \<Rightarrow> string \<Rightarrow> string" where
  "replace_char a b s = concat (map (\<lambda>c. if c = a then b else [c]) s)"

text \<open>The character class \<open>[<>;{}]\<close> of the sanitizers.\<close>

definition markup_char :: "char \<Rightarrow> bool" where
  "markup_char c = (c \<in> set ''<>;{}'')"

text \<open>\<open>re.sub(r'[<>;{}]', '', s)\<close> and \<open>re.sub(r'[^0-9]', '', s)\<close>.\<close>

definition re_sub_markup :: "string \<Rightarrow> string" where
  "re_sub_markup s = filter (\<lambda>c. \<not> markup_char c) s"

definition re_sub_non_digits :: "string \<Rightarrow> string" where
  "re_sub_non_digits s = filter isdigit s"

section \<open>Input sanitizers\<close>

text \<open>
  \<^verbatim>\<open>_sanitize_input\<close> of \<^verbatim>\<open>booking_handler.py\<close> (the same body stands in
  \<^verbatim>\<open>messaging.py\<close> and \<^verbatim>\<open>twilio_handler.py\<close>, and in
  \<^verbatim>\<open>ReceptionistAgent._sanitize_string\<close> without the emptiness test):
  \<^verbatim>\<open>if not input_str: return ""\<close>, then
  \<^verbatim>\<open>re.sub(r'[<>;{}]', '', input_str.strip())\<close>.
\<close>

definition booking_sanitize_input :: "string \<Rightarrow> string" where
  "booking_sanitize_input input_str =
     (if input_str = [] then [] else re_sub_markup (strip input_str))"

text \<open>
  \<^verbatim>\<open>_sanitize_input\<close> of \<^verbatim>\<open>calendly.py\<close>:
  \<^verbatim>\<open>re.sub(r'[<>;{}]', '', input_str.strip().lower().replace(" ", "_"))\<close>.
\<close>

definition calendly_sanitize_input :: "string \<Rightarrow> string" where
  "calendly_sanitize_input input_str =
     (if input_str = [] then []
      else re_sub_markup (replace_char (CHR '' '') ''_'' (lower (strip input_str))))"

text \<open>\<^verbatim>\<open>ReceptionistAgent._sanitize_string\<close>.\<close>

definition sanitize_string :: "string \<Rightarrow> string" where
  "sanitize_string input_string = re_sub_markup (strip input_string)"

text \<open>
  What "surrounding whitespace trimmed" says of a result: it neither begins nor ends with
  a whitespace character.
\<close>

definition trimmed :: "string \<Rightarrow> bool" where
  "trimmed s = (s = [] \<or> (\<not> isspace (hd s) \<and> \<not> isspace (last s)))"

text \<open>
  The pattern \<^verbatim>\<open>^\+?[1-9]\d{1,14}$\<close>. Read against the whole text: an optional \<open>+\<close>,
  one digit from 1 to 9, then 1 to 14 further digits. This is the reading of the
  \<^verbatim>\<open>pattern\<close> of \<^verbatim>\<open>GuestInfo.phone\<close>, and of the spec's words.
\<close>

definition e164 :: "string \<Rightarrow> bool" where
  "e164 s =
     (case (case s of [] \<Rightarrow> [] | c # r \<Rightarrow> if c = CHR ''+'' then r else s) of
        [] \<Rightarrow> False
      | d # ds \<Rightarrow> d \<in> set ''123456789'' \<and> 1 \<le> length ds \<and> length ds \<le> 14 \<and> list_all isdigit ds)"

text \<open>
  \<^verbatim>\<open>re.match(r'^\+?[1-9]\d{1,14}$', phone)\<close> of \<^verbatim>\<open>capture_user_phone\<close>: Python's \<open>$\<close>
  matches at the end of the text and also just before a line feed that ends the text.
\<close>

definition re_match_phone :: "string \<Rightarrow> bool" where
  "re_match_phone s = e164 (if s \<noteq> [] \<and> last s = CHR 0x0A then butlast s else s)"

text \<open>
  The first occurrence of \<open>sep\<close> in a text: what stands before it and what stands after it.
  \<^verbatim>\<open>sub in s\<close> asks whether there is one; \<^verbatim>\<open>a, b = s.split(sep)\<close> needs exactly one
  (Python splits at the occurrences from the left, without overlap) and raises ValueError
  otherwise.
\<close>

fun find_sub :: "string \<Rightarrow> string \<Rightarrow> (string \<times> string) option" where
  "find_sub sep [] = (if sep = [] then Some ([], []) else None)"
| "find_sub sep (c # cs) =
     (if take (length sep) (c # cs) = sep then Some ([], drop (length sep) (c # cs))
      else map_option (\<lambda>(b, a). (c # b, a)) (find_sub sep cs))"

definition contains :: "string \<Rightarrow> string \<Rightarrow> bool" where
  "contains sub s = (find_sub sub s \<noteq> None)"

section \<open>Exceptions, dates and the collaborators\<close>

datatype exn =
    ValueError | KeyError | IndexError | AttributeError | OverflowError
  | AudioError | RequestError | NameError

definition split_pair :: "string \<Rightarrow> string \<Rightarrow> exn + (string \<times> string)" where
  "split_pair sep s =
     (case find_sub sep s of
        None \<Rightarrow> Inl ValueError
      | Some (a, rest) \<Rightarrow>
          (case find_sub sep rest of None \<Rightarrow> Inr (a, rest) | Some _ \<Rightarrow> Inl ValueError))"

text \<open>\<^verbatim>\<open>re.search(r'\d+', s)\<close>: the first run of digits (empty when there is none).\<close>

definition first_digits :: "string \<Rightarrow> string" where
  "first_digits s = takeWhile isdigit (dropWhile (\<lambda>c. \<not> isdigit c) s)"

definition digit_val :: "char \<Rightarrow> int" where
  "digit_val c =
     (case map_of (zip ''0123456789'' [0, 1, 2, 3, 4, 5, 6, 7, 8, 9]) c of
        None \<Rightarrow> 0
      | Some v \<Rightarrow> v)"

definition int_of_digits :: "string \<Rightarrow> int" where
  "int_of_digits ds = foldl (\<lambda>n c. 10 * n + digit_val c) 0 ds"

text \<open>
  A \<^verbatim>\<open>datetime\<close>: the proleptic Gregorian ordinal of its date (\<^verbatim>\<open>toordinal()\<close>),
  its time of day, and its UTC offset in seconds when it is aware. The largest date is
  9999-12-31, ordinal 3652059; \<^verbatim>\<open>weekday()\<close> is \<^verbatim>\<open>(toordinal() + 6) % 7\<close>.
\<close>

record datetime =
  ordinal :: int
  hour :: int
  minute :: int
  second :: int
  microsecond :: int
  utcoffset :: "int option"

definition MAXORDINAL :: int where
  "MAXORDINAL = 3652059"

definition weekday :: "datetime \<Rightarrow> int" where
  "weekday d = (ordinal d + 6) mod 7"

text \<open>\<^verbatim>\<open>d + timedelta(days=n)\<close> and \<^verbatim>\<open>d + timedelta(minutes=n)\<close>: OverflowError outside the
  range of dates.\<close>

definition plus_days :: "datetime \<Rightarrow> int \<Rightarrow> exn + datetime" where
  "plus_days d n =
     (if 1 \<le> ordinal d + n \<and> ordinal d + n \<le> MAXORDINAL
      then Inr (d\<lparr>ordinal := ordinal d + n\<rparr>) else Inl OverflowError)"

definition plus_minutes :: "datetime \<Rightarrow> int \<Rightarrow> exn + datetime" where
  "plus_minutes d n =
     (let total = hour d * 60 + minute d + n;
          day = ordinal d + total div 1440
      in if 1 \<le> day \<and> day \<le> MAXORDINAL
         then Inr (d\<lparr>ordinal := day, hour := (total mod 1440) div 60, minute := total mod 60\<rparr>)
         else Inl OverflowError)"

text \<open>\<^verbatim>\<open>datetime(year, month, day, hour)\<close> for the date with ordinal \<open>day\<close>: ValueError when
  the hour is not in 0..23.\<close>

definition datetime_of :: "int \<Rightarrow> int \<Rightarrow> exn + datetime" where
  "datetime_of day h =
     (if 0 \<le> h \<and> h \<le> 23
      then Inr \<lparr>ordinal = day, hour = h, minute = 0, second = 0, microsecond = 0, utcoffset = None\<rparr>
      else Inl ValueError)"

text \<open>What the text-to-speech call answers: it raises, or it returns a URL or \<^verbatim>\<open>None\<close>.\<close>

datatype audio_result = AudioRaises | AudioUrl "string option"

text \<open>The body of a scheduling-service answer to the availability query, as
  \<^verbatim>\<open>is_time_available\<close> reads it: \<^verbatim>\<open>response.json()\<close> raises (or is no object), or the
  object has a \<^verbatim>\<open>collection\<close> of events, or it has none.\<close>

datatype events_json = JsonError | Collection "string list" | NoCollection

text \<open>
  Everything outside the repository that the handlers call, and the module constants
  that are not in the source. A result \<open>None\<close> of a call stands for the call raising.
  \<^item> \<open>generate_audio\<close>: \<^verbatim>\<open>elevenlabs.generate_audio(text, ...)\<close>.
  \<^item> \<open>fromisoformat\<close>: \<^verbatim>\<open>datetime.fromisoformat\<close> (\<open>None\<close>: ValueError); \<open>now\<close>:
    \<^verbatim>\<open>datetime.now()\<close>.
  \<^item> \<open>DOCTOR_EVENT_MAP\<close>: the table of \<^verbatim>\<open>calendly.py\<close>, whose entries the source hides,
    in the order of its entries (keys distinct).
  \<^item> \<open>requests_get\<close>: \<^verbatim>\<open>requests.get\<close> on \<^verbatim>\<open>/scheduled_events\<close> for an event type and
    a time window: the status code and the body. \<open>requests_post\<close>: \<^verbatim>\<open>requests.post\<close> on
    \<^verbatim>\<open>/scheduling_links\<close> for an event type, a window and an invitee (email, name): the
    status code and \<^verbatim>\<open>data["resource"]["booking_url"]\<close> (\<open>None\<close>: reading it raises).
  \<^item> \<open>email_str\<close>: pydantic's \<^verbatim>\<open>EmailStr\<close> (\<open>None\<close>: not an email address).
  \<^item> \<open>urlparse\<close>: scheme, netloc and path; \<open>urljoin\<close>.
  \<^item> \<open>messages_create\<close>: \<^verbatim>\<open>Client(...).messages.create(body, from_, to)\<close>: the message
    SID.
\<close>

record env =
  generate_audio :: "string \<Rightarrow> audio_result"
  fromisoformat :: "string \<Rightarrow> datetime option"
  now :: datetime
  DOCTOR_EVENT_MAP :: "((string \<times> string) \<times> string) list"
  requests_get :: "string \<Rightarrow> datetime \<Rightarrow> datetime \<Rightarrow> (int \<times> events_json) option"
  requests_post ::
    "string \<Rightarrow> datetime \<Rightarrow> datetime \<Rightarrow> string \<Rightarrow> string \<Rightarrow> (int \<times> string option) option"
  email_str :: "string \<Rightarrow> string option"
  urlparse :: "string \<Rightarrow> (string \<times> string \<times> string) option"
  urljoin :: "string \<Rightarrow> string \<Rightarrow> string option"
  messages_create :: "string \<Rightarrow> string \<Rightarrow> string \<Rightarrow> string option"
  HUMAN_SUPPORT_NUMBER :: string
  TWILIO_FROM_NUMBER :: string

text \<open>The calls that leave the process, in the order they are made.\<close>

datatype effect =
    ScheduledEventsGet string datetime datetime
  | SchedulingLinksPost string datetime datetime string string
  | MessagesCreate string string string

section \<open>The receptionist agent: the Validated Guest Record\<close>

record GuestInfo =
  name :: string
  email :: string
  phone :: string
  purpose :: string

text \<open>
  \<^verbatim>\<open>ReceptionistAgent.validate_input\<close>: every value is sanitized, then checked against
  \<^verbatim>\<open>GuestInfo\<close> (name of 2 to 100 characters, an email address, the phone pattern, a
  purpose of 5 to 200 characters). Every exception is caught: the result is \<open>None\<close>.
\<close>

definition validate_input :: "env \<Rightarrow> GuestInfo \<Rightarrow> GuestInfo option" where
  "validate_input env guest_data =
     (let n = sanitize_string (name guest_data);
          e = sanitize_string (email guest_data);
          p = sanitize_string (phone guest_data);
          u = sanitize_string (purpose guest_data)
      in if length n < 2 \<or> 100 < length n then None
         else case email_str env e of
                None \<Rightarrow> None
              | Some e' \<Rightarrow>
                  if \<not> e164 p then None
                  else if length u < 5 \<or> 200 < length u then None
                  else Some \<lparr>name = n, email = e', phone = p, purpose = u\<rparr>)"

section \<open>The Availability Oracle (calendly.py)\<close>

definition day_map :: "string \<Rightarrow> int option" where
  "day_map = map_of [(''monday'', 0), (''tuesday'', 1), (''wednesday'', 2), (''thursday'', 3),
                     (''friday'', 4), (''saturday'', 5), (''sunday'', 6)]"

text \<open>
  The fallback branch of \<^verbatim>\<open>_parse_datetime\<close>, entered when \<^verbatim>\<open>fromisoformat\<close> raised
  ValueError: the "day at hour" shape. \<open>Inr None\<close> is the final \<^verbatim>\<open>return None\<close>; \<open>Inl\<close> is
  an exception on its way to the outer handler.
\<close>

definition parse_day_at_hour :: "env \<Rightarrow> string \<Rightarrow> exn + datetime option" where
  "parse_day_at_hour env time_text0 =
     (let time_text = lower time_text0 in
      if contains '' at '' time_text then
        (case split_pair '' at '' time_text of
           Inl e \<Rightarrow> Inl e
         | Inr (day, time) \<Rightarrow>
             if first_digits time = [] then Inl AttributeError
             else
               let h0 = int_of_digits (first_digits time);
                   h = (if contains ''pm'' time \<and> h0 < 12 then h0 + 12 else h0)
               in (case day_map (strip day) of
                     None \<Rightarrow> Inl ValueError
                   | Some target_day \<Rightarrow>
                       let today = now env;
                           d = (target_day - weekday today + 7) mod 7;
                           days_ahead = (if d = 0 then 7 else d)
                       in (case plus_days today days_ahead of
                             Inl e \<Rightarrow> Inl e
                           | Inr target_date \<Rightarrow>
                               (case datetime_of (ordinal target_date) h of
                                  Inl e \<Rightarrow> Inl e
                                | Inr t \<Rightarrow> Inr (Some t)))))
      else Inr None)"

text \<open>\<^verbatim>\<open>_parse_datetime\<close>: ISO format first, then the fallback; any exception gives
  \<open>None\<close>.\<close>

definition parse_datetime :: "env \<Rightarrow> string \<Rightarrow> datetime option" where
  "parse_datetime env time_text =
     (case fromisoformat env time_text of
        Some t \<Rightarrow> Some t
      | None \<Rightarrow> (case parse_day_at_hour env time_text of Inl e \<Rightarrow> None | Inr r \<Rightarrow> r))"

text \<open>
  The body of \<^verbatim>\<open>is_time_available\<close> inside its \<^verbatim>\<open>try\<close>: the answer, or the exception
  raised, and the calls made. The default of \<^verbatim>\<open>DOCTOR_EVENT_MAP.get\<close>,
  \<^verbatim>\<open>list(DOCTOR_EVENT_MAP.values())[0]\<close>, is evaluated before the lookup: IndexError on
  an empty table.
\<close>

definition is_time_available_body :: "env \<Rightarrow> string \<Rightarrow> string \<Rightarrow> (exn + bool) \<times> effect list" where
  "is_time_available_body env doctor_name0 time_text =
     (let doctor_name = calendly_sanitize_input doctor_name0 in
      if doctor_name = [] then (Inr False, [])
      else
        case parse_datetime env time_text of
          None \<Rightarrow> (Inr False, [])
        | Some start_time \<Rightarrow>
            (case plus_minutes start_time 30 of
               Inl e \<Rightarrow> (Inl e, [])
             | Inr end_time \<Rightarrow>
                 (case DOCTOR_EVENT_MAP env of
                    [] \<Rightarrow> (Inl IndexError, [])
                  | first # _ \<Rightarrow>
                      let event_type_uuid =
                            (case map_of (DOCTOR_EVENT_MAP env) (doctor_name, ''general'') of
                               None \<Rightarrow> snd first
                             | Some u \<Rightarrow> u);
                          call = [ScheduledEventsGet event_type_uuid start_time end_time]
                      in (case requests_get env event_type_uuid start_time end_time of
                            None \<Rightarrow> (Inl RequestError, call)
                          | Some (status_code, body) \<Rightarrow>
                              if status_code = 200 then
                                (case body of
                                   JsonError \<Rightarrow> (Inl RequestError, call)
                                 | Collection events \<Rightarrow> (Inr (events = []), call)
                                 | NoCollection \<Rightarrow> (Inr True, call))
                              else (Inr False, call)))))"

text \<open>\<^verbatim>\<open>is_time_available\<close>: \<^verbatim>\<open>except Exception: return False\<close>.\<close>

definition is_time_available :: "env \<Rightarrow> string \<Rightarrow> string \<Rightarrow> bool \<times> effect list" where
  "is_time_available env doctor_name time_text =
     (case is_time_available_body env doctor_name time_text of
        (Inl e, calls) \<Rightarrow> (False, calls)
      | (Inr b, calls) \<Rightarrow> (b, calls))"

text \<open>
  \<^verbatim>\<open>create_calendly_appointment(doctor_name, department, user_info, appointment_time)\<close>
  with \<^verbatim>\<open>user_info = {"name": ..., "email": ...}\<close>: the booking URL or \<open>None\<close>, and the
  calls made. Every exception is caught: the result is \<open>None\<close>.
\<close>

definition create_calendly_appointment ::
  "env \<Rightarrow> string \<Rightarrow> string \<Rightarrow> string \<Rightarrow> string \<Rightarrow> string \<Rightarrow> string option \<times> effect list" where
  "create_calendly_appointment env doctor_name0 department0 user_name user_email appointment_time =
     (let doctor_name = calendly_sanitize_input doctor_name0;
          department = calendly_sanitize_input department0
      in case map_of (DOCTOR_EVENT_MAP env) (doctor_name, department) of
           None \<Rightarrow> (None, [])
         | Some event_type_uuid \<Rightarrow>
             if event_type_uuid = [] then (None, [])
             else
               (case validate_input env
                       \<lparr>name = calendly_sanitize_input user_name,
                        email = user_email,
                        phone = ''+1234567890'',
                        purpose = ''Appointment with '' @ doctor_name @ '' in '' @ department
                                    @ '' at '' @ appointment_time\<rparr> of
                  None \<Rightarrow> (None, [])
                | Some validated_guest \<Rightarrow>
                    (case parse_datetime env appointment_time of
                       None \<Rightarrow> (None, [])
                     | Some start_time \<Rightarrow>
                         (case plus_minutes start_time 30 of
                            Inl e \<Rightarrow> (None, [])
                          | Inr end_time \<Rightarrow>
                              let call = [SchedulingLinksPost event_type_uuid start_time end_time
                                            (email validated_guest) (name validated_guest)]
                              in (case requests_post env event_type_uuid start_time end_time
                                         (email validated_guest) (name validated_guest) of
                                    None \<Rightarrow> (None, call)
                                  | Some (status_code, booking_url) \<Rightarrow>
                                      if status_code = 201 then (booking_url, call)
                                      else (None, call))))))"

section \<open>The Notifier (messaging.py)\<close>

definition sanitize_url :: "env \<Rightarrow> string \<Rightarrow> string option" where
  "sanitize_url env url =
     (case urlparse env url of
        None \<Rightarrow> None
      | Some (scheme, netloc, path) \<Rightarrow>
          if scheme \<notin> set [''http'', ''https''] \<or> netloc = [] then None
          else urljoin env (scheme @ ''://'' @ netloc) path)"

text \<open>
  \<^verbatim>\<open>send_confirmation_sms(to_number, doctor, time, calendly_link)\<close>: whether the message
  was sent, and the calls made. It returns \<open>False\<close> on every exception.
\<close>

definition send_confirmation_sms ::
  "env \<Rightarrow> string \<Rightarrow> string \<Rightarrow> string \<Rightarrow> string \<Rightarrow> bool \<times> effect list" where
  "send_confirmation_sms env to_number0 doctor0 time0 calendly_link0 =
     (let to_number = booking_sanitize_input to_number0;
          doctor = booking_sanitize_input doctor0;
          time = booking_sanitize_input time0
      in case sanitize_url env calendly_link0 of
           None \<Rightarrow> (False, [])
         | Some calendly_link \<Rightarrow>
             if to_number = [] \<or> doctor = [] \<or> time = [] \<or> calendly_link = [] then (False, [])
             else
               (case validate_input env
                       \<lparr>name = ''Guest'', email = ''guest@example.com'', phone = to_number,
                        purpose = ''Appointment confirmation with '' @ doctor @ '' at '' @ time\<rparr> of
                  None \<Rightarrow> (False, [])
                | Some validated_guest \<Rightarrow>
                    let body0 = ''Your appointment with Dr. '' @ doctor @ '' is confirmed for ''
                                  @ time @ ''. Details: '' @ calendly_link;
                        body = (if 1600 < length body0 then take 1597 body0 @ ''...'' else body0);
                        call = [MessagesCreate body (TWILIO_FROM_NUMBER env) (phone validated_guest)]
                    in (case messages_create env body (TWILIO_FROM_NUMBER env)
                               (phone validated_guest) of
                          None \<Rightarrow> (False, call)
                        | Some sid \<Rightarrow> (True, call))))"

section \<open>Responses, the session store and the turn handlers\<close>

text \<open>
  A TwiML response is the list of its verbs. \<open>Play\<close> holds what \<^verbatim>\<open>generate_audio\<close>
  returned; \<open>Gather\<close> holds its \<^verbatim>\<open>action\<close>, the route of the next turn (the other
  attributes are constants).
\<close>

datatype verb = Play "string option" | Gather string | Redirect string | Dial string | Hangup

type_synonym response = "verb list"

text \<open>\<^verbatim>\<open>_generate_audio_url\<close> logs and re-raises.\<close>

definition generate_audio_url :: "env \<Rightarrow> string \<Rightarrow> exn + string option" where
  "generate_audio_url env t =
     (case generate_audio env t of AudioRaises \<Rightarrow> Inl AudioError | AudioUrl u \<Rightarrow> Inr u)"

text \<open>
  The handlers build a response verb by verb; a prompt is
  \<^verbatim>\<open>response.append(Play(_generate_audio_url(text)))\<close>, which raises when the audio call
  does. \<open>render\<close> runs such a sequence: \<open>Say t\<close> is a prompt, \<open>Verb v\<close> any other verb.
\<close>

datatype item = Say string | Verb verb

fun render :: "env \<Rightarrow> item list \<Rightarrow> exn + response" where
  "render env [] = Inr []"
| "render env (Say t # rest) =
     (case generate_audio_url env t of
        Inl e \<Rightarrow> Inl e
      | Inr u \<Rightarrow> (case render env rest of Inl e \<Rightarrow> Inl e | Inr vs \<Rightarrow> Inr (Play u # vs)))"
| "render env (Verb v # rest) =
     (case render env rest of Inl e \<Rightarrow> Inl e | Inr vs \<Rightarrow> Inr (v # vs))"

text \<open>
  \<^verbatim>\<open>secure_session_data: Dict[str, Dict]\<close>, and the world a handler runs in: the store and
  the calls made so far. A handler returns the response, or the exception that leaves it
  (one raised inside its \<^verbatim>\<open>except\<close> block), and the world it leaves.
\<close>

type_synonym session = "string \<rightharpoonup> string"

record world =
  secure_session_data :: "string \<rightharpoonup> session"
  effects :: "effect list"

type_synonym form = "string \<rightharpoonup> string"

text \<open>\<^verbatim>\<open>request_obj.form.get(key, "")\<close>.\<close>

definition form_get :: "form \<Rightarrow> string \<Rightarrow> string" where
  "form_get f k = (case f k of None \<Rightarrow> [] | Some v \<Rightarrow> v)"

text \<open>What the capture handlers read from a form, under short names: the sanitized call
  identifier, the sanitized speech result, and the speech result as a phone number
  (\<^verbatim>\<open>.replace(" ", "").replace("-", "")\<close>).\<close>

abbreviation sid_of :: "form \<Rightarrow> string" where
  "sid_of f \<equiv> booking_sanitize_input (form_get f ''CallSid'')"

abbreviation speech_of :: "form \<Rightarrow> string" where
  "speech_of f \<equiv> booking_sanitize_input (form_get f ''SpeechResult'')"

abbreviation phone_of :: "form \<Rightarrow> string" where
  "phone_of f \<equiv> replace_char (CHR ''-'') [] (replace_char (CHR '' '') [] (speech_of f))"

text \<open>The \<^verbatim>\<open>except Exception\<close> block of the five capture handlers: a prompt and a redirect to
  the start of the booking dialogue.\<close>

definition booking_except :: "env \<Rightarrow> string \<Rightarrow> exn + response" where
  "booking_except env t = render env [Say t, Verb (Redirect ''/book-appointment'')]"

text \<open>The rest of a \<^verbatim>\<open>try\<close> block that only builds and returns a response.\<close>

definition respond :: "env \<Rightarrow> item list \<Rightarrow> string \<Rightarrow> world \<Rightarrow> (exn + response) \<times> world" where
  "respond env items t w =
     (case render env items of Inl e \<Rightarrow> (booking_except env t, w) | Inr r \<Rightarrow> (Inr r, w))"

text \<open>The prompt of the \<^verbatim>\<open>except\<close> block of the first four capture handlers.\<close>

definition try_again :: string where
  "try_again = ''An error occurred. Please try again.''"

definition handle_booking :: "env \<Rightarrow> exn + response" where
  "handle_booking env =
     (case render env
             [Say ''Please say the name of the doctor you want to book an appointment with after the beep.'',
              Verb (Gather ''/capture-doctor-name''),
              Say ''Sorry, I didn't get that. Let's try again.'',
              Verb (Redirect ''/book-appointment'')] of
        Inl e \<Rightarrow> render env [Say ''An error occurred. Please try again later.'', Verb Hangup]
      | Inr r \<Rightarrow> Inr r)"

text \<open>The answers of the doctor, name and phone steps: each names the route of the next
  turn in its \<open>Gather\<close>.\<close>

definition no_doctor_prompts :: "item list" where
  "no_doctor_prompts =
     [Say ''No doctor name provided. Please try again.'', Verb (Redirect ''/book-appointment'')]"

definition doctor_prompts :: "string \<Rightarrow> item list" where
  "doctor_prompts doctor_name =
     [Say (''Great. You said Doctor '' @ doctor_name @ ''.''),
      Say ''Please say the date and time you'd like to book. For example, say Monday at 2 PM.'',
      Verb (Gather ''/capture-appointment-time''),
      Say ''Sorry, I didn't catch that.'',
      Verb (Redirect ''/book-appointment'')]"

definition name_prompts :: "item list" where
  "name_prompts =
     [Say ''Thanks. Now say your mobile number digit by digit.'',
      Verb (Gather ''/capture-user-phone'')]"

definition phone_prompts :: "item list" where
  "phone_prompts = [Say ''Please say your address.'', Verb (Gather ''/capture-user-address'')]"

definition capture_doctor_name :: "env \<Rightarrow> form \<Rightarrow> world \<Rightarrow> (exn + response) \<times> world" where
  "capture_doctor_name env f w =
     (let call_sid = booking_sanitize_input (form_get f ''CallSid'') in
      if call_sid = [] then (booking_except env try_again, w)
      else
        let doctor_name = booking_sanitize_input (form_get f ''SpeechResult'') in
        if doctor_name = [] then
          respond env no_doctor_prompts try_again w
        else
          respond env (doctor_prompts doctor_name) try_again
            (w\<lparr>secure_session_data :=
                 (secure_session_data w)(call_sid \<mapsto> [''doctor'' \<mapsto> doctor_name])\<rparr>))"

text \<open>The two answers of \<^verbatim>\<open>capture_appointment_time\<close>: the slot is taken, and the time
  is asked for again; or the slot is free, and the name is asked for.\<close>

definition unavailable_prompts :: "string \<Rightarrow> string \<Rightarrow> item list" where
  "unavailable_prompts doctor time_text =
     [Say (''I'm sorry, Dr. '' @ doctor @ '' is not available at '' @ time_text @ ''.''),
      Say ''Please say a different date and time.'',
      Verb (Gather ''/capture-appointment-time'')]"

definition available_prompts :: "string \<Rightarrow> string \<Rightarrow> item list" where
  "available_prompts doctor time_text =
     [Say (''Dr. '' @ doctor @ '' is available at '' @ time_text @ ''.''),
      Say ''Please say your full name.'',
      Verb (Gather ''/capture-user-name'')]"

definition capture_appointment_time :: "env \<Rightarrow> form \<Rightarrow> world \<Rightarrow> (exn + response) \<times> world" where
  "capture_appointment_time env f w =
     (let call_sid = booking_sanitize_input (form_get f ''CallSid'');
          time_text = booking_sanitize_input (form_get f ''SpeechResult'')
      in case (if call_sid = [] then None else secure_session_data w call_sid) of
           None \<Rightarrow> (booking_except env try_again, w)
         | Some session0 \<Rightarrow>
             if time_text = [] then (booking_except env try_again, w)
             else
               let session = session0(''time_text'' \<mapsto> time_text);
                   w1 = w\<lparr>secure_session_data := (secure_session_data w)(call_sid \<mapsto> session)\<rparr>
               in (case session ''doctor'' of
                     None \<Rightarrow> (booking_except env try_again, w1)
                   | Some doctor \<Rightarrow>
                       (case is_time_available env doctor time_text of
                          (available, calls) \<Rightarrow>
                            let w2 = w1\<lparr>effects := effects w1 @ calls\<rparr> in
                            if \<not> available then
                              respond env (unavailable_prompts doctor time_text) try_again w2
                            else
                              respond env (available_prompts doctor time_text) try_again w2)))"

definition capture_user_name :: "env \<Rightarrow> form \<Rightarrow> world \<Rightarrow> (exn + response) \<times> world" where
  "capture_user_name env f w =
     (let call_sid = booking_sanitize_input (form_get f ''CallSid'');
          user_name = booking_sanitize_input (form_get f ''SpeechResult'')
      in case (if call_sid = [] then None else secure_session_data w call_sid) of
           None \<Rightarrow> (booking_except env try_again, w)
         | Some session0 \<Rightarrow>
             if user_name = [] then (booking_except env try_again, w)
             else
               respond env name_prompts try_again
                 (w\<lparr>secure_session_data :=
                      (secure_session_data w)(call_sid \<mapsto> session0(''name'' \<mapsto> user_name))\<rparr>))"

definition capture_user_phone :: "env \<Rightarrow> form \<Rightarrow> world \<Rightarrow> (exn + response) \<times> world" where
  "capture_user_phone env f w =
     (let call_sid = booking_sanitize_input (form_get f ''CallSid'');
          user_phone = replace_char (CHR ''-'') []
                         (replace_char (CHR '' '') []
                            (booking_sanitize_input (form_get f ''SpeechResult'')))
      in case (if call_sid = [] then None else secure_session_data w call_sid) of
           None \<Rightarrow> (booking_except env try_again, w)
         | Some session0 \<Rightarrow>
             if user_phone = [] \<or> \<not> re_match_phone user_phone
             then (booking_except env try_again, w)
             else
               respond env phone_prompts try_again
                 (w\<lparr>secure_session_data :=
                      (secure_session_data w)(call_sid \<mapsto> session0(''phone'' \<mapsto> user_phone))\<rparr>))"

text \<open>
  \<^verbatim>\<open>capture_user_address\<close>, the terminal step and the Booking Finalizer. Three pieces of
  it are named: the \<^verbatim>\<open>guest_data\<close> dictionary (the Booking Request), the prompts that
  read the booking back, and the closing prompt with \<^verbatim>\<open>response.hangup()\<close>.
\<close>

definition guest_data :: "string \<Rightarrow> string \<Rightarrow> string \<Rightarrow> string \<Rightarrow> GuestInfo" where
  "guest_data user_name user_phone doctor time_text =
     \<lparr>name = user_name,
      email = replace_char (CHR '' '') ''.'' (lower user_name) @ ''@example.com'',
      phone = user_phone,
      purpose = ''Appointment with Dr. '' @ doctor @ '' at '' @ time_text\<rparr>"

definition confirming_prompts :: "string \<Rightarrow> string \<Rightarrow> string \<Rightarrow> string \<Rightarrow> string \<Rightarrow> item list" where
  "confirming_prompts user_name user_phone doctor time_text address =
     [Say ''Confirming your booking details.'',
      Say (''You want to book with Doctor '' @ doctor @ '' at '' @ time_text @ ''.''),
      Say (''Your name is '' @ user_name @ '', phone '' @ user_phone @ '', address '' @ address
             @ ''.''),
      Say ''Booking your appointment now.'']"

definition booked_prompts :: "item list" where
  "booked_prompts =
     [Say ''Your appointment has been successfully booked. A confirmation message has been sent to your phone.'',
      Verb Hangup]"

definition booking_failed :: string where
  "booking_failed = ''An error occurred while booking your appointment. Please try again.''"

text \<open>
  The address is written into the stored session first (\<^verbatim>\<open>session\<close> is the stored
  dictionary itself); reading \<^verbatim>\<open>session["name"]\<close>, \<^verbatim>\<open>["phone"]\<close>, \<^verbatim>\<open>["doctor"]\<close> or
  \<^verbatim>\<open>["time_text"]\<close> of a session without that key raises KeyError. The session is removed
  by the last statement of the \<^verbatim>\<open>try\<close> block.
\<close>

definition capture_user_address :: "env \<Rightarrow> form \<Rightarrow> world \<Rightarrow> (exn + response) \<times> world" where
  "capture_user_address env f w =
     (let call_sid = booking_sanitize_input (form_get f ''CallSid'');
          address = booking_sanitize_input (form_get f ''SpeechResult'')
      in case (if call_sid = [] then None else secure_session_data w call_sid) of
           None \<Rightarrow> (booking_except env booking_failed, w)
         | Some session0 \<Rightarrow>
             if address = [] then (booking_except env booking_failed, w)
             else
               let session = session0(''address'' \<mapsto> address);
                   w1 = w\<lparr>secure_session_data := (secure_session_data w)(call_sid \<mapsto> session)\<rparr>
               in (case (session ''name'', session ''phone'', session ''doctor'',
                         session ''time_text'') of
                     (Some user_name, Some user_phone, Some doctor, Some time_text) \<Rightarrow>
                       (case validate_input env (guest_data user_name user_phone doctor time_text) of
                          None \<Rightarrow> (booking_except env booking_failed, w1)
                        | Some validated_guest \<Rightarrow>
                            (case render env
                                    (confirming_prompts user_name user_phone doctor time_text
                                       address) of
                               Inl e \<Rightarrow> (booking_except env booking_failed, w1)
                             | Inr r1 \<Rightarrow>
                                 (case create_calendly_appointment env doctor ''general''
                                         user_name (email validated_guest) time_text of
                                    (calendly_link, calls1) \<Rightarrow>
                                      let w2 = w1\<lparr>effects := effects w1 @ calls1\<rparr> in
                                      if calendly_link = None \<or> calendly_link = Some []
                                      then (booking_except env booking_failed, w2)
                                      else
                                        (case send_confirmation_sms env user_phone doctor time_text
                                                (the calendly_link) of
                                           (sent, calls2) \<Rightarrow>
                                             let w3 = w2\<lparr>effects := effects w2 @ calls2\<rparr> in
                                             (case render env booked_prompts of
                                                Inl e \<Rightarrow> (booking_except env booking_failed, w3)
                                              | Inr r2 \<Rightarrow>
                                                  (Inr (r1 @ r2),
                                                   w3\<lparr>secure_session_data :=
                                                        (secure_session_data w3)(call_sid := None)\<rparr>))))))
                   | _ \<Rightarrow> (booking_except env booking_failed, w1)))"

section \<open>Numeric menu dispatch (intent_handler.py)\<close>

text \<open>
  The names that \<^verbatim>\<open>intent_handler.py\<close> binds by its import statements (lines 1 to 5).
  The module imports neither \<^verbatim>\<open>os\<close> nor \<^verbatim>\<open>re\<close>, which its lines 19 and 37 read, and no
  other statement of the module binds them. Reading a global name that is not bound
  raises \<^verbatim>\<open>NameError\<close>.
\<close>

definition intent_handler_imports :: "string list" where
  "intent_handler_imports =
     [''logging'', ''Optional'', ''Response'', ''request'', ''VoiceResponse'', ''Play'',
      ''generate_audio'']"

definition global_name :: "string list \<Rightarrow> string \<Rightarrow> exn + unit" where
  "global_name names n = (if n \<in> set names then Inr () else Inl NameError)"

text \<open>
  The module's statements of lines 19 to 22, which run when the module is imported:
  \<^verbatim>\<open>HUMAN_SUPPORT_NUMBER = os.getenv("HUMAN_SUPPORT_NUMBER", ...)\<close>, then a
  \<^verbatim>\<open>ValueError\<close> unless the number starts with \<open>+\<close>. The field \<open>HUMAN_SUPPORT_NUMBER\<close> of
  the environment is what \<^verbatim>\<open>os.getenv\<close> would return. The result is the number that the
  module binds, or the exception that ends the import.
\<close>

definition intent_handler_module :: "env \<Rightarrow> exn + string" where
  "intent_handler_module env =
     (case global_name intent_handler_imports ''os'' of
        Inl e \<Rightarrow> Inl e
      | Inr _ \<Rightarrow>
          if take 1 (HUMAN_SUPPORT_NUMBER env) = ''+'' then Inr (HUMAN_SUPPORT_NUMBER env)
          else Inl ValueError)"

text \<open>
  \<^verbatim>\<open>_sanitize_input\<close> of \<^verbatim>\<open>intent_handler.py\<close>, the keypad variant:
  \<^verbatim>\<open>if not input_str: return ""\<close>, then
  \<^verbatim>\<open>re.sub(r'[^0-9]', '', input_str.strip())\<close>, which reads the name \<^verbatim>\<open>re\<close> first.
\<close>

definition intent_sanitize_input :: "string \<Rightarrow> exn + string" where
  "intent_sanitize_input input_str =
     (if input_str = [] then Inr []
      else case global_name intent_handler_imports ''re'' of
             Inl e \<Rightarrow> Inl e
           | Inr _ \<Rightarrow> Inr (re_sub_non_digits (strip input_str)))"

text \<open>
  \<^verbatim>\<open>process_numeric_selection\<close>, the body of the function. The module holds no session
  store: the handler maps a form to a response. Both \<^verbatim>\<open>Digits\<close> and \<^verbatim>\<open>CallSid\<close> go
  through the module's digits-only sanitizer, \<^verbatim>\<open>Digits\<close> first; every exception raised
  in the \<^verbatim>\<open>try\<close> block, that of the sanitizer included, is answered by the \<^verbatim>\<open>except\<close>
  block.
\<close>

definition voice_except :: "env \<Rightarrow> exn + response" where
  "voice_except env =
     render env [Say ''An error occurred. Please try again later.'', Verb (Redirect ''/voice'')]"

definition menu_items :: "env \<Rightarrow> string \<Rightarrow> item list" where
  "menu_items env digit =
     (if digit = ''1'' then
        [Say ''Great! Let's book your appointment.'', Verb (Redirect ''/book-appointment'')]
      else if digit = ''2'' then
        [Say ''Okay, let's cancel your appointment.'', Verb (Redirect ''/cancel-appointment'')]
      else if digit = ''3'' then
        [Say ''Sure, we will reschedule your appointment.'',
         Verb (Redirect ''/reschedule-appointment'')]
      else if digit = ''4'' then
        [Say ''Checking doctor availability now.'', Verb (Redirect ''/check-availability'')]
      else if digit = ''5'' then
        [Say ''Connecting you to a human agent now.'', Verb (Dial (HUMAN_SUPPORT_NUMBER env))]
      else
        [Say ''Invalid input. Let's try again.'', Verb (Redirect ''/voice'')])"

definition process_numeric_selection :: "env \<Rightarrow> form \<Rightarrow> exn + response" where
  "process_numeric_selection env f =
     (case intent_sanitize_input (form_get f ''Digits'') of
        Inl e \<Rightarrow> voice_except env
      | Inr digit \<Rightarrow>
          (case intent_sanitize_input (form_get f ''CallSid'') of
             Inl e \<Rightarrow> voice_except env
           | Inr call_sid \<Rightarrow>
               if call_sid = [] then voice_except env
               else
                 case render env
                        (if digit = [] then
                           [Say ''Invalid input. Let's try again.'', Verb (Redirect ''/voice'')]
                         else menu_items env digit) of
                   Inl e \<Rightarrow> voice_except env
                 | Inr r \<Rightarrow> Inr r))"

section \<open>The routes and sequences of turns\<close>

text \<open>
  The routes of \<^verbatim>\<open>app.py\<close> that lead to the menu dispatch and to the booking dialogue.
  A turn is a callback: its route, its form, and what the collaborators answer while it
  runs. Each route imports its handler and calls it; the import of
  \<^verbatim>\<open>services.intent_handler\<close> runs that module's statements, and an exception of
  theirs leaves the route before the handler is called.
\<close>

datatype route =
    ProcessSelection | BookAppointment | CaptureDoctorName | CaptureAppointmentTime
  | CaptureUserName | CaptureUserPhone | CaptureUserAddress

fun handle :: "route \<Rightarrow> env \<Rightarrow> form \<Rightarrow> world \<Rightarrow> (exn + response) \<times> world" where
  "handle ProcessSelection env f w =
     ((case intent_handler_module env of
         Inl e \<Rightarrow> Inl e
       | Inr number \<Rightarrow> process_numeric_selection env f), w)"
| "handle BookAppointment env f w = (handle_booking env, w)"
| "handle CaptureDoctorName env f w = capture_doctor_name env f w"
| "handle CaptureAppointmentTime env f w = capture_appointment_time env f w"
| "handle CaptureUserName env f w = capture_user_name env f w"
| "handle CaptureUserPhone env f w = capture_user_phone env f w"
| "handle CaptureUserAddress env f w = capture_user_address env f w"

fun run :: "(route \<times> env \<times> form) list \<Rightarrow> world \<Rightarrow> world" where
  "run [] w = w"
| "run ((r, env, f) # turns) w = run turns (snd (handle r env f w))"

definition initial_world :: world where
  "initial_world = \<lparr>secure_session_data = Map.empty, effects = []\<rparr>"

section \<open>Counting calls, and example data\<close>

text \<open>The appointment-creation calls and the notification calls among the calls made.\<close>

fun is_creation :: "effect \<Rightarrow> bool" where
  "is_creation (SchedulingLinksPost u s e m n) = True"
| "is_creation _ = False"

fun is_notification :: "effect \<Rightarrow> bool" where
  "is_notification (MessagesCreate b f t) = True"
| "is_notification _ = False"

definition creation_calls :: "world \<Rightarrow> nat" where
  "creation_calls w = length (filter is_creation (effects w))"

definition notification_calls :: "world \<Rightarrow> nat" where
  "notification_calls w = length (filter is_notification (effects w))"

text \<open>A response that completes the booking: only the success path of the terminal step
  hangs up.\<close>

definition completed :: "exn + response \<Rightarrow> bool" where
  "completed res = (case res of Inl e \<Rightarrow> False | Inr r \<Rightarrow> Hangup \<in> set r)"

text \<open>
  The ordering that the handlers keep: every stored session has its doctor, and holds no
  key but the five field names.
\<close>

definition session_fields :: "string set" where
  "session_fields = {''doctor'', ''time_text'', ''name'', ''phone'', ''address''}"

definition doctor_first :: "world \<Rightarrow> bool" where
  "doctor_first w =
     (\<forall>sid s. secure_session_data w sid = Some s \<longrightarrow> s ''doctor'' \<noteq> None \<and> dom s \<subseteq> session_fields)"

text \<open>
  Example collaborators, for the concrete instances below: every prompt is rendered; the
  only ISO time known is 2025-06-10T14:00 (ordinal 739412, a Tuesday); today is Friday
  2025-06-06; Dr. Patel and Dr. Smith have event types; Dr. Smith's calendar has an event
  in every window asked for, Dr. Patel's has none; the scheduling link is created; the
  message service fails.
\<close>

definition example_env :: env where
  "example_env =
     \<lparr>generate_audio = (\<lambda>t. AudioUrl (Some (''audio:'' @ t))),
      fromisoformat = (\<lambda>s. if s = ''2025-06-10T14:00:00''
                             then Some \<lparr>ordinal = 739412, hour = 14, minute = 0, second = 0,
                                        microsecond = 0, utcoffset = None\<rparr>
                             else None),
      now = \<lparr>ordinal = 739408, hour = 9, minute = 30, second = 0, microsecond = 0,
              utcoffset = None\<rparr>,
      DOCTOR_EVENT_MAP = [((''patel'', ''general''), ''evt-patel''),
                          ((''smith'', ''general''), ''evt-smith'')],
      requests_get = (\<lambda>u s e. Some (200, Collection (if u = ''evt-smith'' then [''busy''] else []))),
      requests_post = (\<lambda>u s e m n. Some (201, Some ''https://calendly.example/b1'')),
      email_str = (\<lambda>e. Some e),
      urlparse = (\<lambda>u. Some (''https'', ''calendly.example'', ''/b1'')),
      urljoin = (\<lambda>b p. Some (b @ p)),
      messages_create = (\<lambda>b f t. None),
      HUMAN_SUPPORT_NUMBER = ''+15550100'',
      TWILIO_FROM_NUMBER = ''+15550101''\<rparr>"

text \<open>The same collaborators with a scheduling service that refuses to create the
  link.\<close>

definition refusing_env :: env where
  "refusing_env = example_env\<lparr>requests_post := (\<lambda>u s e m n. Some (500, None))\<rparr>"

text \<open>The same collaborators with a text-to-speech service that fails on the closing
  prompt of the booking, and on no other text.\<close>

definition closing_fails_env :: env where
  "closing_fails_env =
     example_env\<lparr>generate_audio :=
       (\<lambda>t. if t = ''Your appointment has been successfully booked. A confirmation message has been sent to your phone.''
            then AudioRaises else AudioUrl (Some (''audio:'' @ t)))\<rparr>"

text \<open>The same collaborators with a scheduling service that cannot be reached for the
  availability query.\<close>

definition unreachable_env :: env where
  "unreachable_env = example_env\<lparr>requests_get := (\<lambda>u s e. None)\<rparr>"

definition turn_form :: "string \<Rightarrow> string \<Rightarrow> form" where
  "turn_form call_sid speech = [''CallSid'' \<mapsto> call_sid, ''SpeechResult'' \<mapsto> speech]"

definition digits_form :: "string \<Rightarrow> string \<Rightarrow> form" where
  "digits_form call_sid digits = [''CallSid'' \<mapsto> call_sid, ''Digits'' \<mapsto> digits]"

text \<open>Stores with one session, at three stages of the dialogue.\<close>

definition smith_world :: world where
  "smith_world =
     \<lparr>secure_session_data = [''CA1'' \<mapsto> [''doctor'' \<mapsto> ''Smith'']], effects = []\<rparr>"

definition jane_session :: session where
  "jane_session = [''doctor'' \<mapsto> ''Patel'', ''time_text'' \<mapsto> ''2025-06-10T14:00:00'',
                   ''name'' \<mapsto> ''Jane Doe'']"

definition jane_world :: world where
  "jane_world = \<lparr>secure_session_data = [''CA1'' \<mapsto> jane_session], effects = []\<rparr>"

definition jane_phone_world :: world where
  "jane_phone_world =
     \<lparr>secure_session_data = [''CA1'' \<mapsto> jane_session(''phone'' \<mapsto> ''+15551234567'')],
      effects = []\<rparr>"

text \<open>A session whose name is one letter: it passes the name step, and fails the guest
  record's length bound.\<close>

definition jay_world :: world where
  "jay_world =
     \<lparr>secure_session_data =
        [''CA1'' \<mapsto> [''doctor'' \<mapsto> ''Patel'', ''time_text'' \<mapsto> ''2025-06-10T14:00:00'',
                    ''name'' \<mapsto> ''J'', ''phone'' \<mapsto> ''+15551234567'']],
      effects = []\<rparr>"

text \<open>A spoken phone number that ends in a line feed and a semicolon: \<^verbatim>\<open>strip()\<close> leaves
  the line feed where it is, because the semicolon follows it, and the removal of the
  semicolon leaves it at the end.\<close>

definition lf_phone :: string where
  "lf_phone = ''15551234567'' @ [CHR 0x0A]"

definition lf_speech :: string where
  "lf_speech = lf_phone @ '';''"

section \<open>Facts about the sanitizers\<close>

lemma filter_dropWhile_absorb:
  "(\<And>x. P x \<Longrightarrow> \<not> Q x) \<Longrightarrow> filter Q (dropWhile P xs) = filter Q xs"
  by (induction xs) auto

lemma isspace_not_digit: "isspace c \<Longrightarrow> \<not> isdigit c"
  by (auto simp: isspace_def isdigit_def)

lemma filter_digit_strip: "filter isdigit (strip s) = filter isdigit s"
proof -
  have "filter isdigit (strip s) = rev (filter isdigit (dropWhile isspace (rev (dropWhile isspace s))))"
    by (simp add: strip_def rev_filter)
  also have "\<dots> = rev (filter isdigit (rev (dropWhile isspace s)))"
    by (simp add: filter_dropWhile_absorb isspace_not_digit)
  also have "\<dots> = filter isdigit (dropWhile isspace s)"
    by (simp add: rev_filter)
  also have "\<dots> = filter isdigit s"
    by (simp add: filter_dropWhile_absorb isspace_not_digit)
  finally show ?thesis .
qed

lemma strip_Nil: "strip [] = []"
  by (simp add: strip_def)

lemma trimmed_strip: "trimmed (strip s)"
proof (cases "strip s = []")
  case True
  then show ?thesis by (simp add: trimmed_def)
next
  case False
  let ?d = "dropWhile isspace s"
  let ?r = "dropWhile isspace (rev ?d)"
  from False have r: "?r \<noteq> []" by (simp add: strip_def)
  have d: "?d \<noteq> []"
  proof
    assume "?d = []"
    then have "?r = []" by (metis dropWhile.simps(1) rev.simps(1))
    with r show False by simp
  qed
  have "\<not> isspace (hd ?r)" using r by (rule hd_dropWhile)
  then have l: "\<not> isspace (last (strip s))"
    using r by (simp add: strip_def last_rev)
  have hd_d: "\<not> isspace (hd ?d)" using d by (rule hd_dropWhile)
  obtain ys where ys: "rev ?d = ys @ ?r"
    by (metis takeWhile_dropWhile_id)
  then have eq: "?d = rev ?r @ rev ys"
    by (metis rev_append rev_rev_ident)
  from r have rr: "rev ?r \<noteq> []" by (simp only: rev_is_Nil_conv not_False_eq_True)
  have "hd (rev ?r @ rev ys) = hd (rev ?r)" using rr by (rule hd_append2)
  with eq have "hd ?d = hd (rev ?r)" by (rule ssubst)
  with hd_d have "\<not> isspace (hd (strip s))" by (simp add: strip_def)
  with l show ?thesis by (simp add: trimmed_def)
qed

lemma strip_decomposition:
  "\<exists>pre post. s = pre @ strip s @ post \<and> list_all isspace pre \<and> list_all isspace post"
proof -
  let ?d = "dropWhile isspace s"
  have 1: "s = takeWhile isspace s @ ?d" by simp
  have 2: "rev ?d = takeWhile isspace (rev ?d) @ dropWhile isspace (rev ?d)" by simp
  have "?d = rev (dropWhile isspace (rev ?d)) @ rev (takeWhile isspace (rev ?d))"
    by (metis 2 rev_append rev_rev_ident)
  then have 3: "?d = strip s @ rev (takeWhile isspace (rev ?d))"
    by (simp add: strip_def)
  have a: "list_all isspace (takeWhile isspace s)"
    by (simp add: list_all_iff) (meson set_takeWhileD)
  have b: "list_all isspace (rev (takeWhile isspace (rev ?d)))"
    by (simp add: list_all_iff) (meson set_takeWhileD)
  from 1 3 have "s = takeWhile isspace s @ strip s @ rev (takeWhile isspace (rev ?d))"
    by metis
  with a b show ?thesis by blast
qed


lemma set_strip_subset: "set (strip s) \<subseteq> set s"
proof -
  obtain pre post where "s = pre @ strip s @ post"
    using strip_decomposition by blast
  then have "set s = set pre \<union> set (strip s) \<union> set post"
    by (metis set_append sup_assoc)
  then show ?thesis by blast
qed

lemma booking_sanitize_input_eq: "booking_sanitize_input s = filter (\<lambda>c. \<not> markup_char c) (strip s)"
  by (simp add: booking_sanitize_input_def re_sub_markup_def strip_Nil)

text \<open>The keypad variant returns for the empty input only: on every other input the
  name \<^verbatim>\<open>re\<close> is read, and it is not bound.\<close>

lemma intent_sanitize_input_eq:
  "intent_sanitize_input s = (if s = [] then Inr [] else Inl NameError)"
  by (simp add: intent_sanitize_input_def global_name_def intent_handler_imports_def)

text \<open>
  C9, as amended. For every input string the sanitizer of the free-text fields trims the
  surrounding whitespace of the input and then deletes the characters \<open>< > ; { }\<close>: the
  input is whitespace, a trimmed middle part, whitespace, and the result is that middle
  part without the five characters. The result holds none of the five characters, and it
  is trimmed when the input holds none of them. The sanitizer is a total function: it
  never raises. It maps the empty input to the empty output, and so does the keypad
  variant.
\<close>

theorem C9_sanitizer_trims_then_removes:
  "(\<exists>pre mid post. s = pre @ mid @ post \<and> list_all isspace pre \<and> list_all isspace post
        \<and> trimmed mid \<and> booking_sanitize_input s = filter (\<lambda>c. \<not> markup_char c) mid)
   \<and> list_all (\<lambda>c. \<not> markup_char c) (booking_sanitize_input s)
   \<and> (list_all (\<lambda>c. \<not> markup_char c) s \<longrightarrow> trimmed (booking_sanitize_input s))
   \<and> booking_sanitize_input [] = [] \<and> intent_sanitize_input [] = Inr []"
proof -
  have a: "\<exists>pre mid post. s = pre @ mid @ post \<and> list_all isspace pre \<and> list_all isspace post
        \<and> trimmed mid \<and> booking_sanitize_input s = filter (\<lambda>c. \<not> markup_char c) mid"
    using strip_decomposition [of s] trimmed_strip [of s] booking_sanitize_input_eq [of s]
    by blast
  have b: "list_all (\<lambda>c. \<not> markup_char c) (booking_sanitize_input s)"
    by (simp add: booking_sanitize_input_eq list_all_iff)
  have c: "trimmed (booking_sanitize_input s)" if "list_all (\<lambda>c. \<not> markup_char c) s"
  proof -
    from that have "\<forall>c \<in> set (strip s). \<not> markup_char c"
      using set_strip_subset [of s] by (auto simp: list_all_iff)
    then have "filter (\<lambda>c. \<not> markup_char c) (strip s) = strip s"
      by (simp add: filter_id_conv)
    then show ?thesis
      by (simp add: booking_sanitize_input_eq trimmed_strip)
  qed
  have d: "booking_sanitize_input [] = [] \<and> intent_sanitize_input [] = Inr []"
    by (simp add: booking_sanitize_input_def intent_sanitize_input_def)
  from a b c d show ?thesis
    by simp
qed

theorem C9_sanitizer_witness:
  "list_all (\<lambda>c. \<not> markup_char c) ''  Dr. Smith ''
   \<and> trimmed (booking_sanitize_input ''  Dr. Smith '')"
  using C9_sanitizer_trims_then_removes [of "''  Dr. Smith ''"]
  by (simp add: markup_char_def)

text \<open>
  The claim as written fails where a removed character shields whitespace: the result for
  the input \<open>< a\<close> begins with a space.
\<close>

theorem C9_counterexample:
  "booking_sanitize_input ''< a'' = '' a'' \<and> \<not> trimmed (booking_sanitize_input ''< a'')"
  by (simp add: booking_sanitize_input_def re_sub_markup_def strip_def isspace_def
      markup_char_def trimmed_def)


section \<open>Rendering and responding\<close>

lemma booking_except_rendered:
  "generate_audio env t = AudioUrl u \<Longrightarrow>
     booking_except env t = Inr [Play u, Redirect ''/book-appointment'']"
  by (simp add: booking_except_def generate_audio_url_def)

lemma booking_except_shape:
  "booking_except env t = Inr r \<Longrightarrow> \<exists>u. r = [Play u, Redirect ''/book-appointment'']"
  by (auto simp: booking_except_def split: sum.splits)

lemma not_completed_booking_except: "\<not> completed (booking_except env t)"
  by (auto simp: completed_def booking_except_def split: sum.splits)

lemma respond_rendered: "render env items = Inr r \<Longrightarrow> respond env items t w = (Inr r, w)"
  by (simp add: respond_def)

lemma respond_unrendered:
  "render env items = Inl e \<Longrightarrow> respond env items t w = (booking_except env t, w)"
  by (simp add: respond_def)

lemma snd_respond: "snd (respond env items t w) = w"
  by (simp add: respond_def split: sum.splits)

lemma fst_respond_cases:
  "fst (respond env items t w) = Inr r \<Longrightarrow>
     render env items = Inr r \<or> (\<exists>u. r = [Play u, Redirect ''/book-appointment''])"
  by (auto simp: respond_def split: sum.splits dest: booking_except_shape)

text \<open>The verbs of a rendered response other than \<open>Play\<close> are the verbs of the items.\<close>

lemma render_verbs:
  "render env items = Inr r \<Longrightarrow> (\<And>u. v \<noteq> Play u) \<Longrightarrow> v \<in> set r \<longleftrightarrow> Verb v \<in> set items"
proof (induction items arbitrary: r)
  case Nil
  then show ?case by simp
next
  case (Cons i items)
  then show ?case
    by (cases i) (auto split: sum.splits)
qed

lemma render_total:
  "(\<And>t. generate_audio env t \<noteq> AudioRaises) \<Longrightarrow> \<exists>r. render env items = Inr r"
proof (induction items)
  case Nil
  then show ?case by simp
next
  case (Cons i items)
  then obtain r where r: "render env items = Inr r" by blast
  show ?case
  proof (cases i)
    case (Say t)
    with Cons.prems [of t] r show ?thesis
      by (cases "generate_audio env t") (simp_all add: generate_audio_url_def)
  next
    case (Verb v)
    with r show ?thesis by simp
  qed
qed

lemma render_booked_hangup: "render env booked_prompts = Inr r \<Longrightarrow> Hangup \<in> set r"
  by (auto simp: booked_prompts_def split: sum.splits)

lemma render_confirming_no_hangup:
  "render env (confirming_prompts n p d t a) = Inr r \<Longrightarrow> Hangup \<notin> set r"
  by (auto simp: confirming_prompts_def split: sum.splits)

section \<open>The calls of the collaborators' wrappers\<close>

lemma create_calls:
  "create_calendly_appointment env d dep n e t = (link, c) \<Longrightarrow>
     filter is_notification c = [] \<and>
     (if link = None then length (filter is_creation c) \<le> 1 else length (filter is_creation c) = 1)"
  by (auto simp: create_calendly_appointment_def Let_def
      split: option.splits if_splits sum.splits prod.splits)

lemma sms_calls:
  "send_confirmation_sms env p d t l = (sent, c) \<Longrightarrow>
     filter is_creation c = [] \<and> length (filter is_notification c) \<le> 1"
  by (auto simp: send_confirmation_sms_def Let_def
      split: option.splits if_splits sum.splits prod.splits)

lemma availability_calls:
  "is_time_available env d t = (b, c) \<Longrightarrow> filter is_creation c = [] \<and> filter is_notification c = []"
  by (auto simp: is_time_available_def is_time_available_body_def Let_def
      split: option.splits if_splits sum.splits prod.splits list.splits events_json.splits)


section \<open>The terminal step, path by path\<close>


lemma cua_no_session:
  assumes "sid_of f = []
           \<or> secure_session_data w (sid_of f) = None"
  shows "capture_user_address env f w = (booking_except env booking_failed, w)"
  using assms by (auto simp: capture_user_address_def Let_def)

lemma cua_no_address:
  assumes "speech_of f = []"
  shows "capture_user_address env f w = (booking_except env booking_failed, w)"
  using assms by (auto simp: capture_user_address_def Let_def split: option.splits)

lemma cua_missing_field:
  assumes "sid_of f = sid" "sid \<noteq> []"
    and "secure_session_data w sid = Some s"
    and "speech_of f = a" "a \<noteq> []"
    and "s ''name'' = None \<or> s ''phone'' = None \<or> s ''doctor'' = None \<or> s ''time_text'' = None"
  shows "capture_user_address env f w =
           (booking_except env booking_failed,
            w\<lparr>secure_session_data := (secure_session_data w)(sid \<mapsto> s(''address'' \<mapsto> a))\<rparr>)"
  using assms by (auto simp: capture_user_address_def Let_def split: option.splits)

lemma cua_invalid:
  assumes "sid_of f = sid" "sid \<noteq> []"
    and "secure_session_data w sid = Some s"
    and "speech_of f = a" "a \<noteq> []"
    and "s ''name'' = Some n" "s ''phone'' = Some p" "s ''doctor'' = Some d" "s ''time_text'' = Some t"
    and "validate_input env (guest_data n p d t) = None"
  shows "capture_user_address env f w =
           (booking_except env booking_failed,
            w\<lparr>secure_session_data := (secure_session_data w)(sid \<mapsto> s(''address'' \<mapsto> a))\<rparr>)"
  using assms by (simp add: capture_user_address_def Let_def)

lemma cua_unrendered:
  assumes "sid_of f = sid" "sid \<noteq> []"
    and "secure_session_data w sid = Some s"
    and "speech_of f = a" "a \<noteq> []"
    and "s ''name'' = Some n" "s ''phone'' = Some p" "s ''doctor'' = Some d" "s ''time_text'' = Some t"
    and "validate_input env (guest_data n p d t) = Some g"
    and "render env (confirming_prompts n p d t a) = Inl e"
  shows "capture_user_address env f w =
           (booking_except env booking_failed,
            w\<lparr>secure_session_data := (secure_session_data w)(sid \<mapsto> s(''address'' \<mapsto> a))\<rparr>)"
  using assms by (simp add: capture_user_address_def Let_def)

lemma cua_not_created:
  assumes "sid_of f = sid" "sid \<noteq> []"
    and "secure_session_data w sid = Some s"
    and "speech_of f = a" "a \<noteq> []"
    and "s ''name'' = Some n" "s ''phone'' = Some p" "s ''doctor'' = Some d" "s ''time_text'' = Some t"
    and "validate_input env (guest_data n p d t) = Some g"
    and "render env (confirming_prompts n p d t a) = Inr r1"
    and "create_calendly_appointment env d ''general'' n (email g) t = (link, c1)"
    and "link = None \<or> link = Some []"
  shows "capture_user_address env f w =
           (booking_except env booking_failed,
            w\<lparr>secure_session_data := (secure_session_data w)(sid \<mapsto> s(''address'' \<mapsto> a)),
              effects := effects w @ c1\<rparr>)"
  using assms by (auto simp: capture_user_address_def Let_def)

lemma cua_closing_unrendered:
  assumes "sid_of f = sid" "sid \<noteq> []"
    and "secure_session_data w sid = Some s"
    and "speech_of f = a" "a \<noteq> []"
    and "s ''name'' = Some n" "s ''phone'' = Some p" "s ''doctor'' = Some d" "s ''time_text'' = Some t"
    and "validate_input env (guest_data n p d t) = Some g"
    and "render env (confirming_prompts n p d t a) = Inr r1"
    and "create_calendly_appointment env d ''general'' n (email g) t = (Some l, c1)" "l \<noteq> []"
    and "send_confirmation_sms env p d t l = (sent, c2)"
    and "render env booked_prompts = Inl e"
  shows "capture_user_address env f w =
           (booking_except env booking_failed,
            w\<lparr>secure_session_data := (secure_session_data w)(sid \<mapsto> s(''address'' \<mapsto> a)),
              effects := effects w @ c1 @ c2\<rparr>)"
  using assms by (simp add: capture_user_address_def Let_def)

lemma cua_booked:
  assumes "sid_of f = sid" "sid \<noteq> []"
    and "secure_session_data w sid = Some s"
    and "speech_of f = a" "a \<noteq> []"
    and "s ''name'' = Some n" "s ''phone'' = Some p" "s ''doctor'' = Some d" "s ''time_text'' = Some t"
    and "validate_input env (guest_data n p d t) = Some g"
    and "render env (confirming_prompts n p d t a) = Inr r1"
    and "create_calendly_appointment env d ''general'' n (email g) t = (Some l, c1)" "l \<noteq> []"
    and "send_confirmation_sms env p d t l = (sent, c2)"
    and "render env booked_prompts = Inr r2"
  shows "capture_user_address env f w =
           (Inr (r1 @ r2),
            w\<lparr>secure_session_data := (secure_session_data w)(sid := None),
              effects := effects w @ c1 @ c2\<rparr>)"
  using assms by (simp add: capture_user_address_def Let_def)


lemma capture_user_address_cases [consumes 0, case_names rejected failed booked]:
  obtains
    (rejected) "capture_user_address env f w = (booking_except env booking_failed, w)"
  | (failed) sid s a c where
      "sid_of f = sid" "sid \<noteq> []"
      "secure_session_data w sid = Some s"
      "speech_of f = a" "a \<noteq> []"
      "capture_user_address env f w =
         (booking_except env booking_failed,
          w\<lparr>secure_session_data := (secure_session_data w)(sid \<mapsto> s(''address'' \<mapsto> a)),
            effects := effects w @ c\<rparr>)"
  | (booked) sid s a n p d t g r1 l c1 sent c2 r2 where
      "sid_of f = sid" "sid \<noteq> []"
      "secure_session_data w sid = Some s"
      "speech_of f = a" "a \<noteq> []"
      "s ''name'' = Some n" "s ''phone'' = Some p" "s ''doctor'' = Some d" "s ''time_text'' = Some t"
      "validate_input env (guest_data n p d t) = Some g"
      "render env (confirming_prompts n p d t a) = Inr r1"
      "create_calendly_appointment env d ''general'' n (email g) t = (Some l, c1)" "l \<noteq> []"
      "send_confirmation_sms env p d t l = (sent, c2)"
      "render env booked_prompts = Inr r2"
      "capture_user_address env f w =
         (Inr (r1 @ r2),
          w\<lparr>secure_session_data := (secure_session_data w)(sid := None),
            effects := effects w @ c1 @ c2\<rparr>)"
proof -
  define sid where "sid = sid_of f"
  define a where "a = speech_of f"
  note sid = sid_def [symmetric] and a = a_def [symmetric]
  show thesis
  proof (cases "sid = [] \<or> secure_session_data w sid = None")
    case True
    then show thesis using rejected cua_no_session [of f w env] by (simp add: sid_def)
  next
    case False
    then obtain s where s: "sid \<noteq> []" "secure_session_data w sid = Some s" by auto
    show thesis
    proof (cases "a = []")
      case True
      then show thesis using rejected cua_no_address [of f env w] by (simp add: a_def)
    next
      case a_ok: False
      have stay: thesis if "capture_user_address env f w =
           (booking_except env booking_failed,
            w\<lparr>secure_session_data := (secure_session_data w)(sid \<mapsto> s(''address'' \<mapsto> a))\<rparr>)"
        using failed [of sid s a "[]"] that sid s a a_ok by simp
      show thesis
      proof (cases "s ''name'' = None \<or> s ''phone'' = None \<or> s ''doctor'' = None \<or> s ''time_text'' = None")
        case True
        from cua_missing_field [OF sid s a a_ok True] show thesis by (rule stay)
      next
        case False
        then obtain n p d t where flds:
          "s ''name'' = Some n" "s ''phone'' = Some p" "s ''doctor'' = Some d" "s ''time_text'' = Some t"
          by auto
        show thesis
        proof (cases "validate_input env (guest_data n p d t)")
          case None
          from cua_invalid [OF sid s a a_ok flds None] show thesis by (rule stay)
        next
          case (Some g)
          show thesis
          proof (cases "render env (confirming_prompts n p d t a)")
            case (Inl e)
            from cua_unrendered [OF sid s a a_ok flds Some Inl] show thesis by (rule stay)
          next
            case (Inr r1)
            obtain link c1 where cr: "create_calendly_appointment env d ''general'' n (email g) t = (link, c1)"
              by (cases "create_calendly_appointment env d ''general'' n (email g) t")
            show thesis
            proof (cases "link = None \<or> link = Some []")
              case True
              from cua_not_created [OF sid s a a_ok flds Some Inr cr True]
              show thesis using failed [OF sid s a a_ok] by blast
            next
              case False
              then obtain l where l: "link = Some l" "l \<noteq> []" by auto
              obtain sent c2 where sms: "send_confirmation_sms env p d t l = (sent, c2)"
                by (cases "send_confirmation_sms env p d t l")
              show thesis
              proof (cases "render env booked_prompts")
                case (Inl e)
                from cua_closing_unrendered [OF sid s a a_ok flds Some Inr cr [unfolded l(1)] l(2) sms Inl]
                show thesis using failed [OF sid s a a_ok] by blast
              next
                case r2: (Inr r2)
                from cua_booked [OF sid s a a_ok flds Some Inr cr [unfolded l(1)] l(2) sms r2]
                show thesis using booked [OF sid s a a_ok flds Some Inr cr [unfolded l(1)] l(2) sms r2] by blast
              qed
            qed
          qed
        qed
      qed
    qed
  qed
qed



section \<open>The first four capture steps, path by path\<close>

lemma cdn_rejected:
  "sid_of f = [] \<Longrightarrow> capture_doctor_name env f w = (booking_except env try_again, w)"
  by (simp add: capture_doctor_name_def Let_def)

lemma cdn_no_doctor:
  "sid_of f \<noteq> [] \<Longrightarrow> speech_of f = [] \<Longrightarrow>
     capture_doctor_name env f w = respond env no_doctor_prompts try_again w"
  by (simp add: capture_doctor_name_def Let_def)

lemma cdn_stored:
  "sid_of f \<noteq> [] \<Longrightarrow> speech_of f \<noteq> [] \<Longrightarrow>
     capture_doctor_name env f w =
       respond env (doctor_prompts (speech_of f)) try_again
         (w\<lparr>secure_session_data :=
              (secure_session_data w)(sid_of f \<mapsto> [''doctor'' \<mapsto> speech_of f])\<rparr>)"
  by (simp add: capture_doctor_name_def Let_def)

lemma cat_rejected:
  "sid_of f = [] \<or> secure_session_data w (sid_of f) = None \<or> speech_of f = [] \<Longrightarrow>
     capture_appointment_time env f w = (booking_except env try_again, w)"
  by (auto simp: capture_appointment_time_def Let_def split: option.splits)

lemma cat_no_doctor:
  "sid_of f \<noteq> [] \<Longrightarrow> secure_session_data w (sid_of f) = Some s \<Longrightarrow> speech_of f \<noteq> [] \<Longrightarrow>
   s ''doctor'' = None \<Longrightarrow>
     capture_appointment_time env f w =
       (booking_except env try_again,
        w\<lparr>secure_session_data :=
             (secure_session_data w)(sid_of f \<mapsto> s(''time_text'' \<mapsto> speech_of f))\<rparr>)"
  by (simp add: capture_appointment_time_def Let_def)

lemma cat_answered:
  "sid_of f \<noteq> [] \<Longrightarrow> secure_session_data w (sid_of f) = Some s \<Longrightarrow> speech_of f \<noteq> [] \<Longrightarrow>
   s ''doctor'' = Some d \<Longrightarrow> is_time_available env d (speech_of f) = (b, c) \<Longrightarrow>
     capture_appointment_time env f w =
       respond env
         (if b then available_prompts d (speech_of f) else unavailable_prompts d (speech_of f))
         try_again
         (w\<lparr>secure_session_data :=
              (secure_session_data w)(sid_of f \<mapsto> s(''time_text'' \<mapsto> speech_of f)),
            effects := effects w @ c\<rparr>)"
  by (simp add: capture_appointment_time_def Let_def)

lemma cun_rejected:
  "sid_of f = [] \<or> secure_session_data w (sid_of f) = None \<or> speech_of f = [] \<Longrightarrow>
     capture_user_name env f w = (booking_except env try_again, w)"
  by (auto simp: capture_user_name_def Let_def split: option.splits)

lemma cun_stored:
  "sid_of f \<noteq> [] \<Longrightarrow> secure_session_data w (sid_of f) = Some s \<Longrightarrow> speech_of f \<noteq> [] \<Longrightarrow>
     capture_user_name env f w =
       respond env name_prompts try_again
         (w\<lparr>secure_session_data :=
              (secure_session_data w)(sid_of f \<mapsto> s(''name'' \<mapsto> speech_of f))\<rparr>)"
  by (simp add: capture_user_name_def Let_def)

lemma cup_rejected:
  "sid_of f = [] \<or> secure_session_data w (sid_of f) = None \<or> phone_of f = []
     \<or> \<not> re_match_phone (phone_of f) \<Longrightarrow>
     capture_user_phone env f w = (booking_except env try_again, w)"
  by (auto simp: capture_user_phone_def Let_def split: option.splits)

lemma cup_stored:
  "sid_of f \<noteq> [] \<Longrightarrow> secure_session_data w (sid_of f) = Some s \<Longrightarrow>
   re_match_phone (phone_of f) \<Longrightarrow>
     capture_user_phone env f w =
       respond env phone_prompts try_again
         (w\<lparr>secure_session_data :=
              (secure_session_data w)(sid_of f \<mapsto> s(''phone'' \<mapsto> phone_of f))\<rparr>)"
  by (auto simp: capture_user_phone_def Let_def re_match_phone_def e164_def)

section \<open>What a turn can do to the store\<close>

lemma capture_doctor_name_store:
  "secure_session_data (snd (capture_doctor_name env f w)) =
     (if sid_of f = [] \<or> speech_of f = [] then secure_session_data w
      else (secure_session_data w)(sid_of f \<mapsto> [''doctor'' \<mapsto> speech_of f]))"
  by (simp add: capture_doctor_name_def Let_def snd_respond)

lemma capture_appointment_time_store:
  "secure_session_data (snd (capture_appointment_time env f w)) = secure_session_data w
   \<or> (\<exists>s. sid_of f \<noteq> [] \<and> speech_of f \<noteq> [] \<and> secure_session_data w (sid_of f) = Some s
         \<and> secure_session_data (snd (capture_appointment_time env f w))
             = (secure_session_data w)(sid_of f \<mapsto> s(''time_text'' \<mapsto> speech_of f)))"
proof (cases "sid_of f = [] \<or> secure_session_data w (sid_of f) = None \<or> speech_of f = []")
  case True
  then show ?thesis by (simp add: cat_rejected)
next
  case False
  then obtain s where s: "sid_of f \<noteq> []" "secure_session_data w (sid_of f) = Some s" "speech_of f \<noteq> []"
    by auto
  show ?thesis
  proof (cases "s ''doctor''")
    case None
    with s show ?thesis by (simp add: cat_no_doctor)
  next
    case (Some d)
    obtain b c where "is_time_available env d (speech_of f) = (b, c)"
      by (cases "is_time_available env d (speech_of f)")
    with s Some show ?thesis by (simp add: cat_answered snd_respond)
  qed
qed

lemma capture_user_name_store:
  "secure_session_data (snd (capture_user_name env f w)) = secure_session_data w
   \<or> (\<exists>s. sid_of f \<noteq> [] \<and> speech_of f \<noteq> [] \<and> secure_session_data w (sid_of f) = Some s
         \<and> secure_session_data (snd (capture_user_name env f w))
             = (secure_session_data w)(sid_of f \<mapsto> s(''name'' \<mapsto> speech_of f)))"
proof (cases "sid_of f = [] \<or> secure_session_data w (sid_of f) = None \<or> speech_of f = []")
  case True
  then show ?thesis by (simp add: cun_rejected)
next
  case False
  then obtain s where "sid_of f \<noteq> []" "secure_session_data w (sid_of f) = Some s" "speech_of f \<noteq> []"
    by auto
  then show ?thesis by (simp add: cun_stored snd_respond)
qed

lemma capture_user_phone_store:
  "secure_session_data (snd (capture_user_phone env f w)) = secure_session_data w
   \<or> (\<exists>s. sid_of f \<noteq> [] \<and> re_match_phone (phone_of f) \<and> secure_session_data w (sid_of f) = Some s
         \<and> secure_session_data (snd (capture_user_phone env f w))
             = (secure_session_data w)(sid_of f \<mapsto> s(''phone'' \<mapsto> phone_of f)))"
proof (cases "sid_of f = [] \<or> secure_session_data w (sid_of f) = None \<or> phone_of f = []
     \<or> \<not> re_match_phone (phone_of f)")
  case True
  then show ?thesis by (simp add: cup_rejected)
next
  case False
  then obtain s where "sid_of f \<noteq> []" "secure_session_data w (sid_of f) = Some s"
    "re_match_phone (phone_of f)"
    by auto
  then show ?thesis by (simp add: cup_stored snd_respond)
qed

lemma capture_user_address_store:
  "secure_session_data (snd (capture_user_address env f w)) = secure_session_data w
   \<or> (\<exists>s. sid_of f \<noteq> [] \<and> speech_of f \<noteq> [] \<and> secure_session_data w (sid_of f) = Some s
         \<and> (if completed (fst (capture_user_address env f w))
            then secure_session_data (snd (capture_user_address env f w))
                   = (secure_session_data w)(sid_of f := None)
            else secure_session_data (snd (capture_user_address env f w))
                   = (secure_session_data w)(sid_of f \<mapsto> s(''address'' \<mapsto> speech_of f))))"
proof (cases rule: capture_user_address_cases [where env = env and f = f and w = w])
  case rejected
  then show ?thesis by simp
next
  case (failed sid s a c)
  then show ?thesis by (auto simp: not_completed_booking_except)
next
  case (booked sid s a n p d t g r1 l c1 sent c2 r2)
  have "completed (Inr (r1 @ r2))"
    using render_booked_hangup [OF booked(15)] by (simp add: completed_def)
  with booked show ?thesis by auto
qed


section \<open>The example data, evaluated\<close>


lemmas string_defs =
  booking_sanitize_input_def intent_sanitize_input_def calendly_sanitize_input_def
  sanitize_string_def re_sub_markup_def re_sub_non_digits_def strip_def isspace_def
  isdigit_def markup_char_def lower_def lower_char_def replace_char_def e164_def
  re_match_phone_def form_get_def turn_form_def digits_form_def

lemma ex_sid: "sid_of (turn_form ''CA1'' x) = ''CA1''"
  by (simp add: string_defs)

lemma ex_address: "speech_of (turn_form c ''1 Main St'') = ''1 Main St''"
  by (simp add: string_defs)

lemma ex_validate:
  "validate_input example_env
     (guest_data ''Jane Doe'' ''+15551234567'' ''Patel'' ''2025-06-10T14:00:00'') =
   Some \<lparr>name = ''Jane Doe'', email = ''jane.doe@example.com'', phone = ''+15551234567'',
         purpose = ''Appointment with Dr. Patel at 2025-06-10T14:00:00''\<rparr>"
  by (simp add: validate_input_def guest_data_def example_env_def string_defs)

lemma ex_render_confirming:
  "render example_env
     (confirming_prompts ''Jane Doe'' ''+15551234567'' ''Patel'' ''2025-06-10T14:00:00'' ''1 Main St'') =
   Inr [Play (Some ''audio:Confirming your booking details.''),
        Play (Some ''audio:You want to book with Doctor Patel at 2025-06-10T14:00:00.''),
        Play (Some ''audio:Your name is Jane Doe, phone +15551234567, address 1 Main St.''),
        Play (Some ''audio:Booking your appointment now.'')]"
  by (simp add: confirming_prompts_def generate_audio_url_def example_env_def)

lemma ex_create:
  "create_calendly_appointment example_env ''Patel'' ''general'' ''Jane Doe''
     ''jane.doe@example.com'' ''2025-06-10T14:00:00'' =
   (Some ''https://calendly.example/b1'',
    [SchedulingLinksPost ''evt-patel''
       \<lparr>ordinal = 739412, hour = 14, minute = 0, second = 0, microsecond = 0, utcoffset = None\<rparr>
       \<lparr>ordinal = 739412, hour = 14, minute = 30, second = 0, microsecond = 0, utcoffset = None\<rparr>
       ''jane.doe@example.com'' ''jane_doe''])"
  by (simp add: create_calendly_appointment_def validate_input_def parse_datetime_def
      plus_minutes_def MAXORDINAL_def example_env_def string_defs)

lemma ex_sms:
  "send_confirmation_sms example_env ''+15551234567'' ''Patel'' ''2025-06-10T14:00:00''
     ''https://calendly.example/b1'' =
   (False,
    [MessagesCreate
       ''Your appointment with Dr. Patel is confirmed for 2025-06-10T14:00:00. Details: https://calendly.example/b1''
       ''+15550101'' ''+15551234567''])"
  by (simp add: send_confirmation_sms_def sanitize_url_def validate_input_def example_env_def
      string_defs)

lemma ex_render_booked:
  "render example_env booked_prompts =
   Inr [Play (Some ''audio:Your appointment has been successfully booked. A confirmation message has been sent to your phone.''),
        Hangup]"
  by (simp add: booked_prompts_def generate_audio_url_def example_env_def)


lemma ex_booked:
  "capture_user_address example_env (turn_form ''CA1'' ''1 Main St'') jane_phone_world =
     (Inr ([Play (Some ''audio:Confirming your booking details.''),
            Play (Some ''audio:You want to book with Doctor Patel at 2025-06-10T14:00:00.''),
            Play (Some ''audio:Your name is Jane Doe, phone +15551234567, address 1 Main St.''),
            Play (Some ''audio:Booking your appointment now.'')] @
           [Play (Some ''audio:Your appointment has been successfully booked. A confirmation message has been sent to your phone.''),
            Hangup]),
      jane_phone_world
        \<lparr>secure_session_data := (secure_session_data jane_phone_world)(''CA1'' := None),
         effects := effects jane_phone_world @
           [SchedulingLinksPost ''evt-patel''
              \<lparr>ordinal = 739412, hour = 14, minute = 0, second = 0, microsecond = 0, utcoffset = None\<rparr>
              \<lparr>ordinal = 739412, hour = 14, minute = 30, second = 0, microsecond = 0, utcoffset = None\<rparr>
              ''jane.doe@example.com'' ''jane_doe''] @
           [MessagesCreate
              ''Your appointment with Dr. Patel is confirmed for 2025-06-10T14:00:00. Details: https://calendly.example/b1''
              ''+15550101'' ''+15551234567'']\<rparr>)"
proof (rule cua_booked [OF ex_sid _ _ ex_address _ _ _ _ _ _ ex_render_confirming _ _ ex_sms ex_render_booked])
  show "secure_session_data jane_phone_world ''CA1'' =
          Some (jane_session(''phone'' \<mapsto> ''+15551234567''))"
    by (simp add: jane_phone_world_def)
  show "(jane_session(''phone'' \<mapsto> ''+15551234567'')) ''name'' = Some ''Jane Doe''"
    by (simp add: jane_session_def)
  show "(jane_session(''phone'' \<mapsto> ''+15551234567'')) ''phone'' = Some ''+15551234567''"
    by simp
  show "(jane_session(''phone'' \<mapsto> ''+15551234567'')) ''doctor'' = Some ''Patel''"
    by (simp add: jane_session_def)
  show "(jane_session(''phone'' \<mapsto> ''+15551234567'')) ''time_text'' = Some ''2025-06-10T14:00:00''"
    by (simp add: jane_session_def)
  show "validate_input example_env
          (guest_data ''Jane Doe'' ''+15551234567'' ''Patel'' ''2025-06-10T14:00:00'') =
        Some \<lparr>name = ''Jane Doe'', email = ''jane.doe@example.com'', phone = ''+15551234567'',
              purpose = ''Appointment with Dr. Patel at 2025-06-10T14:00:00''\<rparr>"
    by (rule ex_validate)
  show "create_calendly_appointment example_env ''Patel'' ''general'' ''Jane Doe''
          (email \<lparr>name = ''Jane Doe'', email = ''jane.doe@example.com'', phone = ''+15551234567'',
                  purpose = ''Appointment with Dr. Patel at 2025-06-10T14:00:00''\<rparr>)
          ''2025-06-10T14:00:00'' =
        (Some ''https://calendly.example/b1'',
         [SchedulingLinksPost ''evt-patel''
            \<lparr>ordinal = 739412, hour = 14, minute = 0, second = 0, microsecond = 0, utcoffset = None\<rparr>
            \<lparr>ordinal = 739412, hour = 14, minute = 30, second = 0, microsecond = 0, utcoffset = None\<rparr>
            ''jane.doe@example.com'' ''jane_doe''])"
    using ex_create by simp
qed simp_all


section \<open>The claims about the terminal step\<close>

text \<open>
  C3. For every call identifier, when the terminal step completes (its response hangs
  up), it has made exactly one appointment-creation call and has removed the session; any
  later invocation of the terminal step for the same call identifier, whatever the
  collaborators answer and whatever it says, leaves the world as it is: it makes no
  further appointment-creation call (no call at all) and does not complete.
\<close>

theorem C3_one_creation_per_completion:
  assumes "completed (fst (capture_user_address env f w))"
  shows "secure_session_data (snd (capture_user_address env f w)) (sid_of f) = None
       \<and> creation_calls (snd (capture_user_address env f w)) = creation_calls w + 1
       \<and> (\<forall>env2 f2. sid_of f2 = sid_of f \<longrightarrow>
             snd (capture_user_address env2 f2 (snd (capture_user_address env f w)))
               = snd (capture_user_address env f w)
           \<and> \<not> completed (fst (capture_user_address env2 f2 (snd (capture_user_address env f w)))))"
proof (cases rule: capture_user_address_cases [where env = env and f = f and w = w])
  case rejected
  with assms show ?thesis by (simp add: not_completed_booking_except)
next
  case (failed sid s a c)
  with assms show ?thesis by (simp add: not_completed_booking_except)
next
  case (booked sid s a n p d t g r1 l c1 sent c2 r2)
  let ?w' = "w\<lparr>secure_session_data := (secure_session_data w)(sid := None),
               effects := effects w @ c1 @ c2\<rparr>"
  have w': "snd (capture_user_address env f w) = ?w'" using booked by simp
  have gone: "secure_session_data ?w' sid = None" by simp
  have "length (filter is_creation c1) = 1" using create_calls [OF booked(12)] by simp
  moreover have "filter is_creation c2 = []" using sms_calls [OF booked(14)] by simp
  ultimately have count: "creation_calls ?w' = creation_calls w + 1"
    by (simp add: creation_calls_def)
  have again: "capture_user_address env2 f2 ?w' = (booking_except env2 booking_failed, ?w')"
    if "sid_of f2 = sid_of f" for env2 f2
    by (rule cua_no_session) (use that booked(1) gone in simp)
  show ?thesis
    unfolding w' using gone count again booked(1)
    by (simp add: not_completed_booking_except)
qed

theorem C3_witness:
  "completed (fst (capture_user_address example_env (turn_form ''CA1'' ''1 Main St'') jane_phone_world))
   \<and> creation_calls (snd (capture_user_address example_env (turn_form ''CA1'' ''1 Main St'')
                            jane_phone_world)) = 1
   \<and> creation_calls
        (snd (capture_user_address refusing_env (turn_form ''CA1'' ''2 Side St'')
                (snd (capture_user_address example_env (turn_form ''CA1'' ''1 Main St'')
                        jane_phone_world)))) = 1"
proof -
  have c: "completed (fst (capture_user_address example_env (turn_form ''CA1'' ''1 Main St'')
                             jane_phone_world))"
    by (simp add: ex_booked completed_def)
  have s: "sid_of (turn_form ''CA1'' ''2 Side St'') = sid_of (turn_form ''CA1'' ''1 Main St'')"
    by (simp add: ex_sid)
  from C3_one_creation_per_completion [OF c] s c show ?thesis
    by (simp add: creation_calls_def jane_phone_world_def)
qed



lemma ex_refused:
  "create_calendly_appointment refusing_env ''Patel'' ''general'' ''Jane Doe''
     ''jane.doe@example.com'' ''2025-06-10T14:00:00'' =
   (None,
    [SchedulingLinksPost ''evt-patel''
       \<lparr>ordinal = 739412, hour = 14, minute = 0, second = 0, microsecond = 0, utcoffset = None\<rparr>
       \<lparr>ordinal = 739412, hour = 14, minute = 30, second = 0, microsecond = 0, utcoffset = None\<rparr>
       ''jane.doe@example.com'' ''jane_doe''])"
  by (simp add: create_calendly_appointment_def validate_input_def parse_datetime_def
      plus_minutes_def MAXORDINAL_def refusing_env_def example_env_def string_defs)

lemma ex_refusing_validate:
  "validate_input refusing_env
     (guest_data ''Jane Doe'' ''+15551234567'' ''Patel'' ''2025-06-10T14:00:00'') =
   Some \<lparr>name = ''Jane Doe'', email = ''jane.doe@example.com'', phone = ''+15551234567'',
         purpose = ''Appointment with Dr. Patel at 2025-06-10T14:00:00''\<rparr>"
  by (simp add: validate_input_def guest_data_def refusing_env_def example_env_def string_defs)

lemma ex_refusing_render_confirming:
  "render refusing_env
     (confirming_prompts ''Jane Doe'' ''+15551234567'' ''Patel'' ''2025-06-10T14:00:00'' ''1 Main St'') =
   Inr [Play (Some ''audio:Confirming your booking details.''),
        Play (Some ''audio:You want to book with Doctor Patel at 2025-06-10T14:00:00.''),
        Play (Some ''audio:Your name is Jane Doe, phone +15551234567, address 1 Main St.''),
        Play (Some ''audio:Booking your appointment now.'')]"
  by (simp add: confirming_prompts_def generate_audio_url_def refusing_env_def example_env_def)

lemma ex_jane_phone_session:
  "secure_session_data jane_phone_world ''CA1'' = Some (jane_session(''phone'' \<mapsto> ''+15551234567''))"
  "(jane_session(''phone'' \<mapsto> ''+15551234567'')) ''name'' = Some ''Jane Doe''"
  "(jane_session(''phone'' \<mapsto> ''+15551234567'')) ''phone'' = Some ''+15551234567''"
  "(jane_session(''phone'' \<mapsto> ''+15551234567'')) ''doctor'' = Some ''Patel''"
  "(jane_session(''phone'' \<mapsto> ''+15551234567'')) ''time_text'' = Some ''2025-06-10T14:00:00''"
  by (simp_all add: jane_phone_world_def jane_session_def)

text \<open>
  What the finalizer does with the session once the guest record is valid and the booking
  has been read back. If the appointment-creation call fails (no link, or an empty one),
  the session is not deleted: a lookup under the call identifier finds it, with the
  address added, and the step does not complete. If it returns a link, then, whatever the
  notification does (\<open>sent\<close> may be false), the session is deleted provided that the closing
  prompt is rendered.
\<close>

lemma finalizer_session_kept_or_removed:
  assumes "sid_of f = sid" "sid \<noteq> []"
    and "secure_session_data w sid = Some s"
    and "speech_of f = a" "a \<noteq> []"
    and "s ''name'' = Some n" "s ''phone'' = Some p" "s ''doctor'' = Some d" "s ''time_text'' = Some t"
    and "validate_input env (guest_data n p d t) = Some g"
    and "render env (confirming_prompts n p d t a) = Inr r1"
    and "create_calendly_appointment env d ''general'' n (email g) t = (link, c1)"
    and "send_confirmation_sms env p d t (the link) = (sent, c2)"
  shows "((link = None \<or> link = Some []) \<longrightarrow>
            secure_session_data (snd (capture_user_address env f w)) sid
              = Some (s(''address'' \<mapsto> a))
          \<and> \<not> completed (fst (capture_user_address env f w)))
       \<and> ((\<exists>l. link = Some l \<and> l \<noteq> []) \<and> render env booked_prompts = Inr r2 \<longrightarrow>
            secure_session_data (snd (capture_user_address env f w)) sid = None
          \<and> fst (capture_user_address env f w) = Inr (r1 @ r2)
          \<and> effects (snd (capture_user_address env f w)) = effects w @ c1 @ c2)"
proof (intro conjI impI)
  assume "link = None \<or> link = Some []"
  from cua_not_created [OF assms(1-12) this]
  show "secure_session_data (snd (capture_user_address env f w)) sid = Some (s(''address'' \<mapsto> a))"
    and "\<not> completed (fst (capture_user_address env f w))"
    by (simp_all add: not_completed_booking_except)
next
  assume h: "(\<exists>l. link = Some l \<and> l \<noteq> []) \<and> render env booked_prompts = Inr r2"
  then obtain l where l: "link = Some l" "l \<noteq> []" by blast
  from h have r2: "render env booked_prompts = Inr r2" by simp
  from cua_booked [OF assms(1-11) assms(12) [unfolded l(1)] l(2) assms(13) [unfolded l(1) option.sel] r2]
  show "secure_session_data (snd (capture_user_address env f w)) sid = None"
    and "fst (capture_user_address env f w) = Inr (r1 @ r2)"
    and "effects (snd (capture_user_address env f w)) = effects w @ c1 @ c2"
    by simp_all
qed

lemma ex_finalizer_session_kept_or_removed:
  "map_option (\<lambda>s. s ''address'')
     (secure_session_data
        (snd (capture_user_address refusing_env (turn_form ''CA1'' ''1 Main St'') jane_phone_world))
        ''CA1'') = Some (Some ''1 Main St'')
   \<and> fst (send_confirmation_sms example_env ''+15551234567'' ''Patel'' ''2025-06-10T14:00:00''
            ''https://calendly.example/b1'') = False
   \<and> secure_session_data
        (snd (capture_user_address example_env (turn_form ''CA1'' ''1 Main St'') jane_phone_world))
        ''CA1'' = None"
proof -
  let ?g = "\<lparr>name = ''Jane Doe'', email = ''jane.doe@example.com'', phone = ''+15551234567'',
             purpose = ''Appointment with Dr. Patel at 2025-06-10T14:00:00''\<rparr>"
  have ne: "''CA1'' \<noteq> []" "''1 Main St'' \<noteq> []" by simp_all
  have refused:
    "create_calendly_appointment refusing_env ''Patel'' ''general'' ''Jane Doe'' (email ?g)
       ''2025-06-10T14:00:00'' =
     (None, snd (create_calendly_appointment refusing_env ''Patel'' ''general'' ''Jane Doe''
                   (email ?g) ''2025-06-10T14:00:00''))"
    using ex_refused by simp
  have created:
    "create_calendly_appointment example_env ''Patel'' ''general'' ''Jane Doe'' (email ?g)
       ''2025-06-10T14:00:00'' =
     (Some ''https://calendly.example/b1'',
      snd (create_calendly_appointment example_env ''Patel'' ''general'' ''Jane Doe''
             (email ?g) ''2025-06-10T14:00:00''))"
    using ex_create by simp
  have sms: "send_confirmation_sms env p d t l =
               (fst (send_confirmation_sms env p d t l), snd (send_confirmation_sms env p d t l))"
    for env p d t l by simp
  note kept = finalizer_session_kept_or_removed
      [OF ex_sid ne(1) ex_jane_phone_session(1) ex_address ne(2) ex_jane_phone_session(2-5)
          ex_refusing_validate ex_refusing_render_confirming refused sms]
  note gone = finalizer_session_kept_or_removed
      [OF ex_sid ne(1) ex_jane_phone_session(1) ex_address ne(2) ex_jane_phone_session(2-5)
          ex_validate ex_render_confirming created sms]
  from kept have 1: "map_option (\<lambda>s. s ''address'')
     (secure_session_data
        (snd (capture_user_address refusing_env (turn_form ''CA1'' ''1 Main St'') jane_phone_world))
        ''CA1'') = Some (Some ''1 Main St'')"
    by simp
  from gone ex_render_booked have 2: "secure_session_data
        (snd (capture_user_address example_env (turn_form ''CA1'' ''1 Main St'') jane_phone_world))
        ''CA1'' = None"
    by simp
  from 1 2 show ?thesis by (simp add: ex_sms)
qed


text \<open>The finalizer's steps with a text-to-speech service that fails on the closing
  prompt.\<close>

lemma ex_closing_validate:
  "validate_input closing_fails_env
     (guest_data ''Jane Doe'' ''+15551234567'' ''Patel'' ''2025-06-10T14:00:00'') =
   Some \<lparr>name = ''Jane Doe'', email = ''jane.doe@example.com'', phone = ''+15551234567'',
         purpose = ''Appointment with Dr. Patel at 2025-06-10T14:00:00''\<rparr>"
  by (simp add: validate_input_def guest_data_def closing_fails_env_def example_env_def string_defs)

lemma ex_closing_render_confirming:
  "render closing_fails_env
     (confirming_prompts ''Jane Doe'' ''+15551234567'' ''Patel'' ''2025-06-10T14:00:00'' ''1 Main St'') =
   Inr [Play (Some ''audio:Confirming your booking details.''),
        Play (Some ''audio:You want to book with Doctor Patel at 2025-06-10T14:00:00.''),
        Play (Some ''audio:Your name is Jane Doe, phone +15551234567, address 1 Main St.''),
        Play (Some ''audio:Booking your appointment now.'')]"
  by (simp add: confirming_prompts_def generate_audio_url_def closing_fails_env_def)

lemma ex_closing_create:
  "create_calendly_appointment closing_fails_env ''Patel'' ''general'' ''Jane Doe''
     ''jane.doe@example.com'' ''2025-06-10T14:00:00'' =
   (Some ''https://calendly.example/b1'',
    [SchedulingLinksPost ''evt-patel''
       \<lparr>ordinal = 739412, hour = 14, minute = 0, second = 0, microsecond = 0, utcoffset = None\<rparr>
       \<lparr>ordinal = 739412, hour = 14, minute = 30, second = 0, microsecond = 0, utcoffset = None\<rparr>
       ''jane.doe@example.com'' ''jane_doe''])"
  by (simp add: create_calendly_appointment_def validate_input_def parse_datetime_def
      plus_minutes_def MAXORDINAL_def closing_fails_env_def example_env_def string_defs)

lemma ex_closing_sms:
  "send_confirmation_sms closing_fails_env ''+15551234567'' ''Patel'' ''2025-06-10T14:00:00''
     ''https://calendly.example/b1'' =
   (False,
    [MessagesCreate
       ''Your appointment with Dr. Patel is confirmed for 2025-06-10T14:00:00. Details: https://calendly.example/b1''
       ''+15550101'' ''+15551234567''])"
  by (simp add: send_confirmation_sms_def sanitize_url_def validate_input_def
      closing_fails_env_def example_env_def string_defs)

lemma ex_closing_render_booked: "render closing_fails_env booked_prompts = Inl AudioError"
  by (simp add: booked_prompts_def generate_audio_url_def closing_fails_env_def)

lemma ex_closing_except:
  "booking_except closing_fails_env booking_failed =
     Inr [Play (Some ''audio:An error occurred while booking your appointment. Please try again.''),
          Redirect ''/book-appointment'']"
  by (simp add: booking_except_def booking_failed_def generate_audio_url_def closing_fails_env_def)

lemma ex_closing_turn:
  "capture_user_address closing_fails_env (turn_form ''CA1'' ''1 Main St'') jane_phone_world =
     (Inr [Play (Some ''audio:An error occurred while booking your appointment. Please try again.''),
           Redirect ''/book-appointment''],
      jane_phone_world
        \<lparr>secure_session_data := (secure_session_data jane_phone_world)
            (''CA1'' \<mapsto> (jane_session(''phone'' \<mapsto> ''+15551234567''))(''address'' \<mapsto> ''1 Main St'')),
         effects := effects jane_phone_world @
           [SchedulingLinksPost ''evt-patel''
              \<lparr>ordinal = 739412, hour = 14, minute = 0, second = 0, microsecond = 0, utcoffset = None\<rparr>
              \<lparr>ordinal = 739412, hour = 14, minute = 30, second = 0, microsecond = 0, utcoffset = None\<rparr>
              ''jane.doe@example.com'' ''jane_doe''] @
           [MessagesCreate
              ''Your appointment with Dr. Patel is confirmed for 2025-06-10T14:00:00. Details: https://calendly.example/b1''
              ''+15550101'' ''+15551234567'']\<rparr>)"
proof -
  let ?g = "\<lparr>name = ''Jane Doe'', email = ''jane.doe@example.com'', phone = ''+15551234567'',
             purpose = ''Appointment with Dr. Patel at 2025-06-10T14:00:00''\<rparr>"
  have ne: "''CA1'' \<noteq> []" "''1 Main St'' \<noteq> []" "''https://calendly.example/b1'' \<noteq> []"
    by simp_all
  have created:
    "create_calendly_appointment closing_fails_env ''Patel'' ''general'' ''Jane Doe'' (email ?g)
       ''2025-06-10T14:00:00'' =
     (Some ''https://calendly.example/b1'',
      [SchedulingLinksPost ''evt-patel''
         \<lparr>ordinal = 739412, hour = 14, minute = 0, second = 0, microsecond = 0, utcoffset = None\<rparr>
         \<lparr>ordinal = 739412, hour = 14, minute = 30, second = 0, microsecond = 0, utcoffset = None\<rparr>
         ''jane.doe@example.com'' ''jane_doe''])"
    using ex_closing_create by simp
  show ?thesis
    unfolding ex_closing_except [symmetric]
    by (rule cua_closing_unrendered
        [OF ex_sid ne(1) ex_jane_phone_session(1) ex_address ne(2) ex_jane_phone_session(2-5)
            ex_closing_validate ex_closing_render_confirming created ne(3) ex_closing_sms
            ex_closing_render_booked])
qed

text \<open>The address turn once more, after the failed closing prompt, with every prompt
  rendered: the session is still there, and a second appointment is created.\<close>

lemma ex_closing_retry:
  "creation_calls
     (snd (capture_user_address example_env (turn_form ''CA1'' ''1 Main St'')
        (snd (capture_user_address closing_fails_env (turn_form ''CA1'' ''1 Main St'')
                jane_phone_world)))) = 2"
proof -
  let ?g = "\<lparr>name = ''Jane Doe'', email = ''jane.doe@example.com'', phone = ''+15551234567'',
             purpose = ''Appointment with Dr. Patel at 2025-06-10T14:00:00''\<rparr>"
  let ?s = "(jane_session(''phone'' \<mapsto> ''+15551234567''))(''address'' \<mapsto> ''1 Main St'')"
  let ?w = "snd (capture_user_address closing_fails_env (turn_form ''CA1'' ''1 Main St'')
                   jane_phone_world)"
  have ne: "''CA1'' \<noteq> []" "''1 Main St'' \<noteq> []" "''https://calendly.example/b1'' \<noteq> []"
    by simp_all
  have s: "secure_session_data ?w ''CA1'' = Some ?s"
    unfolding ex_closing_turn by simp
  have e: "creation_calls ?w = 1"
    unfolding ex_closing_turn by (simp add: creation_calls_def jane_phone_world_def)
  have flds: "?s ''name'' = Some ''Jane Doe''" "?s ''phone'' = Some ''+15551234567''"
    "?s ''doctor'' = Some ''Patel''" "?s ''time_text'' = Some ''2025-06-10T14:00:00''"
    by (simp_all add: jane_session_def)
  have created:
    "create_calendly_appointment example_env ''Patel'' ''general'' ''Jane Doe'' (email ?g)
       ''2025-06-10T14:00:00'' =
     (Some ''https://calendly.example/b1'',
      [SchedulingLinksPost ''evt-patel''
         \<lparr>ordinal = 739412, hour = 14, minute = 0, second = 0, microsecond = 0, utcoffset = None\<rparr>
         \<lparr>ordinal = 739412, hour = 14, minute = 30, second = 0, microsecond = 0, utcoffset = None\<rparr>
         ''jane.doe@example.com'' ''jane_doe''])"
    using ex_create by simp
  have "effects (snd (capture_user_address example_env (turn_form ''CA1'' ''1 Main St'') ?w)) =
          effects ?w @
          [SchedulingLinksPost ''evt-patel''
             \<lparr>ordinal = 739412, hour = 14, minute = 0, second = 0, microsecond = 0, utcoffset = None\<rparr>
             \<lparr>ordinal = 739412, hour = 14, minute = 30, second = 0, microsecond = 0, utcoffset = None\<rparr>
             ''jane.doe@example.com'' ''jane_doe''] @
          [MessagesCreate
             ''Your appointment with Dr. Patel is confirmed for 2025-06-10T14:00:00. Details: https://calendly.example/b1''
             ''+15550101'' ''+15551234567'']"
    using cua_booked [OF ex_sid ne(1) s ex_address ne(2) flds ex_validate ex_render_confirming
        created ne(3) ex_sms ex_render_booked]
    by simp
  with e show ?thesis
    by (simp add: creation_calls_def)
qed

text \<open>
  C4 at the failing input. The caller's session holds doctor, time, name and phone, and
  the address is spoken. The scheduling service creates the appointment and returns its
  link, the notification is attempted, and then the text-to-speech service fails on the
  closing prompt, which the finalizer renders before it deletes the session. The
  appointment exists and the session is still in the store: the caller hears the error
  prompt and is sent back to the booking dialogue. When the address turn is repeated with
  every prompt rendered, a second appointment is created.
\<close>

theorem C4_created_appointment_keeps_session:
  "fst (create_calendly_appointment closing_fails_env ''Patel'' ''general'' ''Jane Doe''
          ''jane.doe@example.com'' ''2025-06-10T14:00:00'') = Some ''https://calendly.example/b1''
   \<and> creation_calls
        (snd (capture_user_address closing_fails_env (turn_form ''CA1'' ''1 Main St'') jane_phone_world))
     = 1
   \<and> notification_calls
        (snd (capture_user_address closing_fails_env (turn_form ''CA1'' ''1 Main St'') jane_phone_world))
     = 1
   \<and> secure_session_data
        (snd (capture_user_address closing_fails_env (turn_form ''CA1'' ''1 Main St'') jane_phone_world))
        ''CA1''
     = Some ((jane_session(''phone'' \<mapsto> ''+15551234567''))(''address'' \<mapsto> ''1 Main St''))
   \<and> fst (capture_user_address closing_fails_env (turn_form ''CA1'' ''1 Main St'') jane_phone_world)
     = Inr [Play (Some ''audio:An error occurred while booking your appointment. Please try again.''),
            Redirect ''/book-appointment'']
   \<and> creation_calls
        (snd (capture_user_address example_env (turn_form ''CA1'' ''1 Main St'')
           (snd (capture_user_address closing_fails_env (turn_form ''CA1'' ''1 Main St'')
                   jane_phone_world)))) = 2"
  unfolding ex_closing_retry unfolding ex_closing_turn ex_closing_create
  by (simp add: creation_calls_def notification_calls_def jane_phone_world_def)


lemma ex_jay_invalid:
  "validate_input example_env (guest_data ''J'' ''+15551234567'' ''Patel'' ''2025-06-10T14:00:00'') = None"
  by (simp add: validate_input_def guest_data_def example_env_def string_defs)

lemma ex_jay_session:
  "secure_session_data jay_world ''CA1'' =
     Some [''doctor'' \<mapsto> ''Patel'', ''time_text'' \<mapsto> ''2025-06-10T14:00:00'',
           ''name'' \<mapsto> ''J'', ''phone'' \<mapsto> ''+15551234567'']"
  by (simp add: jay_world_def)

text \<open>
  C7. During finalization, when the guest record derived from the session fails
  \<^verbatim>\<open>validate_input\<close>, the attempt ends in the handler's error answer: no call leaves the
  process (no appointment-creation call, no notification), the step does not complete,
  and the response is the error prompt followed by a redirect to the start of the booking
  dialogue (when the audio of that prompt is generated).
\<close>

theorem C7_invalid_guest_aborts_without_calls:
  assumes "sid_of f = sid" "sid \<noteq> []"
    and "secure_session_data w sid = Some s"
    and "speech_of f = a" "a \<noteq> []"
    and "s ''name'' = Some n" "s ''phone'' = Some p" "s ''doctor'' = Some d" "s ''time_text'' = Some t"
    and "validate_input env (guest_data n p d t) = None"
  shows "effects (snd (capture_user_address env f w)) = effects w
       \<and> creation_calls (snd (capture_user_address env f w)) = creation_calls w
       \<and> notification_calls (snd (capture_user_address env f w)) = notification_calls w
       \<and> \<not> completed (fst (capture_user_address env f w))
       \<and> fst (capture_user_address env f w) = booking_except env booking_failed
       \<and> (\<forall>u. generate_audio env booking_failed = AudioUrl u \<longrightarrow>
             fst (capture_user_address env f w) = Inr [Play u, Redirect ''/book-appointment''])"
  using cua_invalid [OF assms]
  by (simp add: not_completed_booking_except booking_except_rendered creation_calls_def
      notification_calls_def)

theorem C7_witness:
  "validate_input example_env (guest_data ''J'' ''+15551234567'' ''Patel'' ''2025-06-10T14:00:00'') = None
   \<and> effects (snd (capture_user_address example_env (turn_form ''CA1'' ''1 Main St'') jay_world)) = []
   \<and> fst (capture_user_address example_env (turn_form ''CA1'' ''1 Main St'') jay_world) =
       Inr [Play (Some ''audio:An error occurred while booking your appointment. Please try again.''),
            Redirect ''/book-appointment'']"
proof -
  have ne: "''CA1'' \<noteq> []" "''1 Main St'' \<noteq> []" by simp_all
  have a: "generate_audio example_env booking_failed =
             AudioUrl (Some ''audio:An error occurred while booking your appointment. Please try again.'')"
    by (simp add: example_env_def booking_failed_def)
  note th = C7_invalid_guest_aborts_without_calls
      [OF ex_sid ne(1) ex_jay_session ex_address ne(2) _ _ _ _ ex_jay_invalid]
  from th a ex_jay_invalid booking_except_rendered [OF a] show ?thesis
    by (simp add: jay_world_def)
qed



section \<open>The claims about the session store\<close>

text \<open>
  C5, as amended. The handlers of the later steps (time, name, phone, address) never
  create a session: each leaves the store as it is, or puts its own field into the
  session that exists under the call identifier and keeps every other field of it (the
  address step removes the session instead when it completes). The handler of step 1
  never merges: on a valid input it stores a fresh session that holds the doctor alone,
  whether or not the call identifier has a session, so a repeated step-1 input
  discards the other fields.
\<close>

theorem C5_later_steps_merge_first_step_replaces:
  "secure_session_data (snd (capture_doctor_name env f w)) =
     (if sid_of f = [] \<or> speech_of f = [] then secure_session_data w
      else (secure_session_data w)(sid_of f \<mapsto> [''doctor'' \<mapsto> speech_of f]))
   \<and> (secure_session_data (snd (capture_appointment_time env f w)) = secure_session_data w
      \<or> (\<exists>s. secure_session_data w (sid_of f) = Some s
            \<and> secure_session_data (snd (capture_appointment_time env f w))
                = (secure_session_data w)(sid_of f \<mapsto> s(''time_text'' \<mapsto> speech_of f))))
   \<and> (secure_session_data (snd (capture_user_name env f w)) = secure_session_data w
      \<or> (\<exists>s. secure_session_data w (sid_of f) = Some s
            \<and> secure_session_data (snd (capture_user_name env f w))
                = (secure_session_data w)(sid_of f \<mapsto> s(''name'' \<mapsto> speech_of f))))
   \<and> (secure_session_data (snd (capture_user_phone env f w)) = secure_session_data w
      \<or> (\<exists>s. secure_session_data w (sid_of f) = Some s
            \<and> secure_session_data (snd (capture_user_phone env f w))
                = (secure_session_data w)(sid_of f \<mapsto> s(''phone'' \<mapsto> phone_of f))))
   \<and> (secure_session_data (snd (capture_user_address env f w)) = secure_session_data w
      \<or> (\<exists>s. secure_session_data w (sid_of f) = Some s
            \<and> (secure_session_data (snd (capture_user_address env f w))
                  = (secure_session_data w)(sid_of f \<mapsto> s(''address'' \<mapsto> speech_of f))
               \<or> secure_session_data (snd (capture_user_address env f w))
                  = (secure_session_data w)(sid_of f := None))))"
proof (intro conjI)
  show "secure_session_data (snd (capture_doctor_name env f w)) =
     (if sid_of f = [] \<or> speech_of f = [] then secure_session_data w
      else (secure_session_data w)(sid_of f \<mapsto> [''doctor'' \<mapsto> speech_of f]))"
    by (rule capture_doctor_name_store)
  show "secure_session_data (snd (capture_appointment_time env f w)) = secure_session_data w
      \<or> (\<exists>s. secure_session_data w (sid_of f) = Some s
            \<and> secure_session_data (snd (capture_appointment_time env f w))
                = (secure_session_data w)(sid_of f \<mapsto> s(''time_text'' \<mapsto> speech_of f)))"
    using capture_appointment_time_store [of env f w] by blast
  show "secure_session_data (snd (capture_user_name env f w)) = secure_session_data w
      \<or> (\<exists>s. secure_session_data w (sid_of f) = Some s
            \<and> secure_session_data (snd (capture_user_name env f w))
                = (secure_session_data w)(sid_of f \<mapsto> s(''name'' \<mapsto> speech_of f)))"
    using capture_user_name_store [of env f w] by blast
  show "secure_session_data (snd (capture_user_phone env f w)) = secure_session_data w
      \<or> (\<exists>s. secure_session_data w (sid_of f) = Some s
            \<and> secure_session_data (snd (capture_user_phone env f w))
                = (secure_session_data w)(sid_of f \<mapsto> s(''phone'' \<mapsto> phone_of f)))"
    using capture_user_phone_store [of env f w] by blast
  show "secure_session_data (snd (capture_user_address env f w)) = secure_session_data w
      \<or> (\<exists>s. secure_session_data w (sid_of f) = Some s
            \<and> (secure_session_data (snd (capture_user_address env f w))
                  = (secure_session_data w)(sid_of f \<mapsto> s(''address'' \<mapsto> speech_of f))
               \<or> secure_session_data (snd (capture_user_address env f w))
                  = (secure_session_data w)(sid_of f := None)))"
    using capture_user_address_store [of env f w]
    by (cases "completed (fst (capture_user_address env f w))") auto
qed

lemma ex_speech_name: "speech_of (turn_form c ''Jane Doe'') = ''Jane Doe''"
  by (simp add: string_defs)

lemma ex_speech_smith: "speech_of (turn_form c ''Smith'') = ''Smith''"
  by (simp add: string_defs)

theorem C5_witness:
  "(secure_session_data
      (snd (capture_user_name example_env (turn_form ''CA1'' ''Jane Doe'') smith_world))
      = secure_session_data smith_world
    \<or> (\<exists>s. secure_session_data smith_world ''CA1'' = Some s
          \<and> secure_session_data
               (snd (capture_user_name example_env (turn_form ''CA1'' ''Jane Doe'') smith_world))
              = (secure_session_data smith_world)(''CA1'' \<mapsto> s(''name'' \<mapsto> ''Jane Doe''))))
   \<and> map_option (\<lambda>s. (s ''doctor'', s ''name''))
       (secure_session_data
          (snd (capture_user_name example_env (turn_form ''CA1'' ''Jane Doe'') smith_world)) ''CA1'')
     = Some (Some ''Smith'', Some ''Jane Doe'')"
proof -
  have s0: "secure_session_data smith_world (sid_of (turn_form ''CA1'' ''Jane Doe''))
              = Some [''doctor'' \<mapsto> ''Smith'']"
    by (simp add: ex_sid smith_world_def)
  have ne: "sid_of (turn_form ''CA1'' ''Jane Doe'') \<noteq> []" "speech_of (turn_form ''CA1'' ''Jane Doe'') \<noteq> []"
    by (simp_all add: ex_sid ex_speech_name)
  have 2: "map_option (\<lambda>s. (s ''doctor'', s ''name''))
       (secure_session_data
          (snd (capture_user_name example_env (turn_form ''CA1'' ''Jane Doe'') smith_world)) ''CA1'')
     = Some (Some ''Smith'', Some ''Jane Doe'')"
    by (simp add: cun_stored [OF ne(1) s0 ne(2)] snd_respond ex_sid ex_speech_name)
  from C5_later_steps_merge_first_step_replaces
         [of example_env "turn_form ''CA1'' ''Jane Doe''" smith_world]
  have 1: "secure_session_data
      (snd (capture_user_name example_env (turn_form ''CA1'' ''Jane Doe'') smith_world))
      = secure_session_data smith_world
    \<or> (\<exists>s. secure_session_data smith_world ''CA1'' = Some s
          \<and> secure_session_data
               (snd (capture_user_name example_env (turn_form ''CA1'' ''Jane Doe'') smith_world))
              = (secure_session_data smith_world)(''CA1'' \<mapsto> s(''name'' \<mapsto> ''Jane Doe'')))"
    unfolding ex_sid ex_speech_name by blast
  from 1 2 show ?thesis by (rule conjI)
qed

text \<open>
  The claim as written fails at step 1: a session with a doctor, a time and a name loses
  the time and the name when the doctor step runs again for its call identifier.
\<close>

theorem C5_counterexample:
  "map_option (\<lambda>s. (s ''doctor'', s ''time_text'', s ''name''))
     (secure_session_data jane_world ''CA1'')
   = Some (Some ''Patel'', Some ''2025-06-10T14:00:00'', Some ''Jane Doe'')
   \<and> map_option (\<lambda>s. (s ''doctor'', s ''time_text'', s ''name''))
       (secure_session_data
          (snd (capture_doctor_name example_env (turn_form ''CA1'' ''Smith'') jane_world)) ''CA1'')
     = Some (Some ''Smith'', None, None)"
  by (simp add: capture_doctor_name_store ex_sid ex_speech_smith jane_world_def jane_session_def)



section \<open>The order of the fields\<close>

lemma doctor_first_store:
  "secure_session_data w' = secure_session_data w \<Longrightarrow> doctor_first w \<Longrightarrow> doctor_first w'"
  by (simp add: doctor_first_def)

lemma doctor_first_fresh:
  assumes "doctor_first w" "d \<noteq> []"
    and "secure_session_data w' = (secure_session_data w)(sid \<mapsto> [''doctor'' \<mapsto> d])"
  shows "doctor_first w'"
  using assms by (auto simp: doctor_first_def session_fields_def split: if_splits)

lemma doctor_first_merge:
  assumes "doctor_first w" "secure_session_data w sid = Some s" "k \<in> session_fields"
    and "secure_session_data w' = (secure_session_data w)(sid \<mapsto> s(k \<mapsto> v))"
  shows "doctor_first w'"
  unfolding doctor_first_def
proof (intro allI impI)
  fix sid' s'
  assume a: "secure_session_data w' sid' = Some s'"
  show "s' ''doctor'' \<noteq> None \<and> dom s' \<subseteq> session_fields"
  proof (cases "sid' = sid")
    case True
    with a assms(4) have s': "s' = s(k \<mapsto> v)" by simp
    from assms(1,2) have "s ''doctor'' \<noteq> None" "dom s \<subseteq> session_fields"
      by (auto simp: doctor_first_def)
    with s' assms(3) show ?thesis by auto
  next
    case False
    with a assms(4) have "secure_session_data w sid' = Some s'" by simp
    with assms(1) show ?thesis by (simp add: doctor_first_def)
  qed
qed

lemma doctor_first_removed:
  assumes "doctor_first w" "secure_session_data w' = (secure_session_data w)(sid := None)"
  shows "doctor_first w'"
  using assms by (auto simp: doctor_first_def split: if_splits)

lemma doctor_first_handle:
  assumes "doctor_first w"
  shows "doctor_first (snd (handle r env f w))"
proof (cases r)
  case ProcessSelection
  with assms show ?thesis by simp
next
  case BookAppointment
  with assms show ?thesis by simp
next
  case CaptureDoctorName
  show ?thesis
  proof (cases "sid_of f = [] \<or> speech_of f = []")
    case True
    then have "secure_session_data (snd (capture_doctor_name env f w)) = secure_session_data w"
      by (simp add: capture_doctor_name_store)
    with assms CaptureDoctorName show ?thesis by (simp add: doctor_first_store)
  next
    case False
    then have "secure_session_data (snd (capture_doctor_name env f w))
                 = (secure_session_data w)(sid_of f \<mapsto> [''doctor'' \<mapsto> speech_of f])"
      by (simp add: capture_doctor_name_store)
    with assms False CaptureDoctorName show ?thesis
      using doctor_first_fresh [of w "speech_of f"] by simp
  qed
next
  case CaptureAppointmentTime
  have "''time_text'' \<in> session_fields" by (simp add: session_fields_def)
  with capture_appointment_time_store [of env f w] assms CaptureAppointmentTime show ?thesis
    by (auto intro: doctor_first_store doctor_first_merge)
next
  case CaptureUserName
  have "''name'' \<in> session_fields" by (simp add: session_fields_def)
  with capture_user_name_store [of env f w] assms CaptureUserName show ?thesis
    by (auto intro: doctor_first_store doctor_first_merge)
next
  case CaptureUserPhone
  have "''phone'' \<in> session_fields" by (simp add: session_fields_def)
  with capture_user_phone_store [of env f w] assms CaptureUserPhone show ?thesis
    by (auto intro: doctor_first_store doctor_first_merge)
next
  case CaptureUserAddress
  have k: "''address'' \<in> session_fields" by (simp add: session_fields_def)
  from capture_user_address_store [of env f w]
  consider "secure_session_data (snd (capture_user_address env f w)) = secure_session_data w"
    | s where "secure_session_data w (sid_of f) = Some s"
        "secure_session_data (snd (capture_user_address env f w))
           = (secure_session_data w)(sid_of f \<mapsto> s(''address'' \<mapsto> speech_of f))"
    | "secure_session_data (snd (capture_user_address env f w))
           = (secure_session_data w)(sid_of f := None)"
    by (cases "completed (fst (capture_user_address env f w))") auto
  then have "doctor_first (snd (capture_user_address env f w))"
  proof cases
    case 1
    from 1 assms show ?thesis by (rule doctor_first_store)
  next
    case (2 s)
    from assms 2(1) k 2(2) show ?thesis by (rule doctor_first_merge)
  next
    case 3
    from assms 3 show ?thesis by (rule doctor_first_removed)
  qed
  with CaptureUserAddress show ?thesis by simp
qed

lemma doctor_first_run: "doctor_first w \<Longrightarrow> doctor_first (run turns w)"
proof (induction turns arbitrary: w)
  case Nil
  then show ?case by simp
next
  case (Cons turn turns)
  obtain r env f where turn: "turn = (r, env, f)" by (cases turn)
  from Cons.prems have "doctor_first (snd (handle r env f w))" by (rule doctor_first_handle)
  then have "doctor_first (run turns (snd (handle r env f w)))" by (rule Cons.IH)
  with turn show ?case by simp
qed

text \<open>
  C2, as amended. For every sequence of turn callbacks, in any order and with any
  collaborators, starting from the empty store: every session in the store has its
  doctor, and holds only the five fields. So no session ever holds a time, a name, a phone
  or an address while the doctor is absent. (The order among the four later fields is not
  kept by the handlers: each of them asks only for a session to exist.)
\<close>

theorem C2_doctor_is_always_first:
  "doctor_first (run turns initial_world)"
proof (rule doctor_first_run)
  show "doctor_first initial_world"
    by (simp add: doctor_first_def initial_world_def)
qed

lemma ex_out_of_order:
  "map_option (\<lambda>s. (s ''doctor'', s ''time_text'', s ''name''))
     (secure_session_data
        (run [(CaptureDoctorName, example_env, turn_form ''CA1'' ''Smith''),
              (CaptureUserName, example_env, turn_form ''CA1'' ''Jane Doe'')] initial_world)
        ''CA1'')
   = Some (Some ''Smith'', None, Some ''Jane Doe'')"
proof -
  let ?w1 = "snd (capture_doctor_name example_env (turn_form ''CA1'' ''Smith'') initial_world)"
  have ne: "sid_of (turn_form ''CA1'' ''Jane Doe'') \<noteq> []" "speech_of (turn_form ''CA1'' ''Jane Doe'') \<noteq> []"
    by (simp_all add: ex_sid ex_speech_name)
  have s1: "secure_session_data ?w1 (sid_of (turn_form ''CA1'' ''Jane Doe''))
              = Some [''doctor'' \<mapsto> ''Smith'']"
    by (simp add: capture_doctor_name_store ex_sid ex_speech_smith)
  show ?thesis
    by (simp add: cun_stored [OF ne(1) s1 ne(2)] snd_respond ex_sid ex_speech_name)
qed

theorem C2_witness:
  "map_option (\<lambda>s. s ''doctor'' \<noteq> None \<and> dom s \<subseteq> session_fields)
     (secure_session_data
        (run [(CaptureDoctorName, example_env, turn_form ''CA1'' ''Smith''),
              (CaptureUserName, example_env, turn_form ''CA1'' ''Jane Doe'')] initial_world)
        ''CA1'')
   = Some True"
proof -
  let ?w = "run [(CaptureDoctorName, example_env, turn_form ''CA1'' ''Smith''),
              (CaptureUserName, example_env, turn_form ''CA1'' ''Jane Doe'')] initial_world"
  from ex_out_of_order obtain s where s: "secure_session_data ?w ''CA1'' = Some s"
    by (cases "secure_session_data ?w ''CA1''") simp_all
  from C2_doctor_is_always_first [of "[(CaptureDoctorName, example_env, turn_form ''CA1'' ''Smith''),
              (CaptureUserName, example_env, turn_form ''CA1'' ''Jane Doe'')]"] s
  have "s ''doctor'' \<noteq> None \<and> dom s \<subseteq> session_fields"
    unfolding doctor_first_def by blast
  with s show ?thesis by simp
qed

text \<open>
  The claim as written fails when a callback comes out of order: after the doctor step
  and then the name step, the session holds a name and no time.
\<close>

theorem C2_counterexample:
  "map_option (\<lambda>s. (s ''time_text'', s ''name''))
     (secure_session_data
        (run [(CaptureDoctorName, example_env, turn_form ''CA1'' ''Smith''),
              (CaptureUserName, example_env, turn_form ''CA1'' ''Jane Doe'')] initial_world)
        ''CA1'')
   = Some (None, Some ''Jane Doe'')"
  using ex_out_of_order
  by (cases "secure_session_data
        (run [(CaptureDoctorName, example_env, turn_form ''CA1'' ''Smith''),
              (CaptureUserName, example_env, turn_form ''CA1'' ''Jane Doe'')] initial_world)
        ''CA1''") simp_all



section \<open>The time step\<close>

lemma ex_parse_monday:
  "parse_datetime example_env ''Monday at 2 PM'' =
     Some \<lparr>ordinal = 739411, hour = 14, minute = 0, second = 0, microsecond = 0, utcoffset = None\<rparr>"
  by (simp add: parse_datetime_def parse_day_at_hour_def contains_def split_pair_def
      first_digits_def int_of_digits_def digit_val_def day_map_def weekday_def plus_days_def
      datetime_of_def MAXORDINAL_def example_env_def string_defs Let_def)

lemma ex_smith_unavailable:
  "is_time_available example_env ''Smith'' ''Monday at 2 PM'' =
     (False,
      [ScheduledEventsGet ''evt-smith''
         \<lparr>ordinal = 739411, hour = 14, minute = 0, second = 0, microsecond = 0, utcoffset = None\<rparr>
         \<lparr>ordinal = 739411, hour = 14, minute = 30, second = 0, microsecond = 0, utcoffset = None\<rparr>])"
  by (simp add: is_time_available_def is_time_available_body_def ex_parse_monday plus_minutes_def
      MAXORDINAL_def Let_def string_defs)
     (simp add: example_env_def)


lemma respond_redirect:
  assumes "\<And>r0. render env items = Inr r0 \<Longrightarrow> \<exists>u. r0 = [Play u, Redirect ''/book-appointment'']"
    and "fst (respond env items t w) = Inr r"
  shows "\<exists>u. r = [Play u, Redirect ''/book-appointment'']"
  using fst_respond_cases [OF assms(2)] assms(1) by blast

lemma render_no_doctor_shape:
  "render env no_doctor_prompts = Inr r \<Longrightarrow> \<exists>u. r = [Play u, Redirect ''/book-appointment'']"
  by (auto simp: no_doctor_prompts_def split: sum.splits)

lemma rejected_answer:
  "res = (booking_except env t, w) \<Longrightarrow>
     snd res = w \<and> (\<forall>r. fst res = Inr r \<longrightarrow> (\<exists>u. r = [Play u, Redirect ''/book-appointment'']))"
  by (auto dest: booking_except_shape)

lemma empty_value_rejected:
  assumes "r \<in> {CaptureDoctorName, CaptureAppointmentTime, CaptureUserName, CaptureUserAddress}"
    and "speech_of f = []"
  shows "snd (handle r env f w) = w
       \<and> (\<forall>resp. fst (handle r env f w) = Inr resp \<longrightarrow>
             (\<exists>u. resp = [Play u, Redirect ''/book-appointment'']))"
proof -
  consider "r = CaptureDoctorName" | "r = CaptureAppointmentTime" | "r = CaptureUserName"
    | "r = CaptureUserAddress"
    using assms(1) by auto
  then show ?thesis
  proof cases
    case 1
    show ?thesis
    proof (cases "sid_of f = []")
      case True
      then have "capture_doctor_name env f w = (booking_except env try_again, w)"
        by (rule cdn_rejected)
      from rejected_answer [OF this] 1 show ?thesis by simp
    next
      case False
      then have "capture_doctor_name env f w = respond env no_doctor_prompts try_again w"
        using assms(2) by (rule cdn_no_doctor)
      then show ?thesis
        using 1 by (auto simp: snd_respond dest: respond_redirect [rotated] render_no_doctor_shape)
    qed
  next
    case 2
    from assms(2) have "capture_appointment_time env f w = (booking_except env try_again, w)"
      by (intro cat_rejected) simp
    from rejected_answer [OF this] 2 show ?thesis by simp
  next
    case 3
    from assms(2) have "capture_user_name env f w = (booking_except env try_again, w)"
      by (intro cun_rejected) simp
    from rejected_answer [OF this] 3 show ?thesis by simp
  next
    case 4
    from assms(2) have "capture_user_address env f w = (booking_except env booking_failed, w)"
      by (rule cua_no_address)
    from rejected_answer [OF this] 4 show ?thesis by simp
  qed
qed

lemma no_session_rejected:
  assumes "r \<in> {CaptureAppointmentTime, CaptureUserName, CaptureUserPhone, CaptureUserAddress}"
    and "sid_of f = [] \<or> secure_session_data w (sid_of f) = None"
  shows "snd (handle r env f w) = w
       \<and> (\<forall>resp. fst (handle r env f w) = Inr resp \<longrightarrow>
             (\<exists>u. resp = [Play u, Redirect ''/book-appointment'']))"
proof -
  consider "r = CaptureAppointmentTime" | "r = CaptureUserName" | "r = CaptureUserPhone"
    | "r = CaptureUserAddress"
    using assms(1) by auto
  then show ?thesis
  proof cases
    case 1
    from assms(2) have "capture_appointment_time env f w = (booking_except env try_again, w)"
      by (intro cat_rejected) blast
    from rejected_answer [OF this] 1 show ?thesis by simp
  next
    case 2
    from assms(2) have "capture_user_name env f w = (booking_except env try_again, w)"
      by (intro cun_rejected) blast
    from rejected_answer [OF this] 2 show ?thesis by simp
  next
    case 3
    from assms(2) have "capture_user_phone env f w = (booking_except env try_again, w)"
      by (intro cup_rejected) blast
    from rejected_answer [OF this] 3 show ?thesis by simp
  next
    case 4
    from assms(2) have "capture_user_address env f w = (booking_except env booking_failed, w)"
      by (rule cua_no_session)
    from rejected_answer [OF this] 4 show ?thesis by simp
  qed
qed

lemma bad_phone_rejected:
  assumes "\<not> re_match_phone (phone_of f)"
  shows "snd (handle CaptureUserPhone env f w) = w
       \<and> (\<forall>resp. fst (handle CaptureUserPhone env f w) = Inr resp \<longrightarrow>
             (\<exists>u. resp = [Play u, Redirect ''/book-appointment'']))"
proof -
  from assms have "capture_user_phone env f w = (booking_except env try_again, w)"
    by (intro cup_rejected) blast
  from rejected_answer [OF this] show ?thesis by simp
qed

lemma render_unavailable_gathers_time:
  "render env (unavailable_prompts d t) = Inr r \<Longrightarrow>
     Gather ''/capture-appointment-time'' \<in> set r \<and> Gather ''/capture-user-name'' \<notin> set r"
  by (auto simp: unavailable_prompts_def split: sum.splits)

lemma unavailable_answer:
  assumes "sid_of f \<noteq> []" "secure_session_data w (sid_of f) = Some s" "s ''doctor'' = Some d"
    and "speech_of f \<noteq> []" "is_time_available env d (speech_of f) = (False, c)"
  shows "snd (capture_appointment_time env f w) =
           w\<lparr>secure_session_data :=
               (secure_session_data w)(sid_of f \<mapsto> s(''time_text'' \<mapsto> speech_of f)),
             effects := effects w @ c\<rparr>"
    and "fst (capture_appointment_time env f w) = Inr r \<Longrightarrow> Gather ''/capture-user-name'' \<notin> set r"
    and "render env (unavailable_prompts d (speech_of f)) = Inr r \<Longrightarrow>
           fst (capture_appointment_time env f w) = Inr r"
proof -
  note eq = cat_answered [OF assms(1,2,4,3,5)]
  show "snd (capture_appointment_time env f w) =
           w\<lparr>secure_session_data :=
               (secure_session_data w)(sid_of f \<mapsto> s(''time_text'' \<mapsto> speech_of f)),
             effects := effects w @ c\<rparr>"
    by (simp add: eq snd_respond)
  show "Gather ''/capture-user-name'' \<notin> set r" if "fst (capture_appointment_time env f w) = Inr r"
    using fst_respond_cases [OF that [unfolded eq]] render_unavailable_gathers_time [of env d "speech_of f" r]
    by auto
  show "fst (capture_appointment_time env f w) = Inr r"
    if "render env (unavailable_prompts d (speech_of f)) = Inr r"
    using that by (simp add: eq respond_rendered)
qed

text \<open>
  C1, as amended. When the value of a turn fails the step's own validation (an empty
  value at the doctor, time, name and address steps, a phone number that does not match at
  the phone step) or the step finds no session, the store and the calls are left as they
  were and the answer, when its audio is generated, is a prompt and a redirect to the
  start of the booking dialogue. When the time is not empty and the Availability Oracle
  reports the slot unavailable, the rejected time is written to \<open>time_text\<close> and nothing
  else changes in the session: the doctor is kept; the answer never gathers the name, and
  when its prompts are rendered it gathers the time again.
\<close>

theorem C1_rejected_turns_and_unavailable_slot:
  "(r \<in> {CaptureDoctorName, CaptureAppointmentTime, CaptureUserName, CaptureUserAddress}
      \<and> speech_of f = []
    \<or> r \<in> {CaptureAppointmentTime, CaptureUserName, CaptureUserPhone, CaptureUserAddress}
      \<and> (sid_of f = [] \<or> secure_session_data w (sid_of f) = None)
    \<or> r = CaptureUserPhone \<and> \<not> re_match_phone (phone_of f)
    \<longrightarrow> snd (handle r env f w) = w
        \<and> (\<forall>resp. fst (handle r env f w) = Inr resp \<longrightarrow>
              (\<exists>u. resp = [Play u, Redirect ''/book-appointment''])))
   \<and> (sid_of f \<noteq> [] \<and> secure_session_data w (sid_of f) = Some s \<and> s ''doctor'' = Some d
      \<and> speech_of f \<noteq> [] \<and> is_time_available env d (speech_of f) = (False, c)
      \<longrightarrow> snd (capture_appointment_time env f w) =
            w\<lparr>secure_session_data :=
                (secure_session_data w)(sid_of f \<mapsto> s(''time_text'' \<mapsto> speech_of f)),
              effects := effects w @ c\<rparr>
        \<and> map_option (\<lambda>s'. s' ''doctor'')
            (secure_session_data (snd (capture_appointment_time env f w)) (sid_of f))
            = Some (Some d)
        \<and> (\<forall>resp. fst (capture_appointment_time env f w) = Inr resp \<longrightarrow>
              Gather ''/capture-user-name'' \<notin> set resp)
        \<and> (\<forall>resp. render env (unavailable_prompts d (speech_of f)) = Inr resp \<longrightarrow>
              fst (capture_appointment_time env f w) = Inr resp
              \<and> Gather ''/capture-appointment-time'' \<in> set resp))"
proof (intro conjI impI)
  assume "r \<in> {CaptureDoctorName, CaptureAppointmentTime, CaptureUserName, CaptureUserAddress}
      \<and> speech_of f = []
    \<or> r \<in> {CaptureAppointmentTime, CaptureUserName, CaptureUserPhone, CaptureUserAddress}
      \<and> (sid_of f = [] \<or> secure_session_data w (sid_of f) = None)
    \<or> r = CaptureUserPhone \<and> \<not> re_match_phone (phone_of f)"
  then have "snd (handle r env f w) = w
        \<and> (\<forall>resp. fst (handle r env f w) = Inr resp \<longrightarrow>
              (\<exists>u. resp = [Play u, Redirect ''/book-appointment'']))"
    using empty_value_rejected [of r f env w] no_session_rejected [of r f w env]
      bad_phone_rejected [of f env w]
    by blast
  then show "snd (handle r env f w) = w"
    and "\<forall>resp. fst (handle r env f w) = Inr resp \<longrightarrow>
              (\<exists>u. resp = [Play u, Redirect ''/book-appointment''])"
    by blast+
next
  assume a: "sid_of f \<noteq> [] \<and> secure_session_data w (sid_of f) = Some s \<and> s ''doctor'' = Some d
      \<and> speech_of f \<noteq> [] \<and> is_time_available env d (speech_of f) = (False, c)"
  then have h: "sid_of f \<noteq> []" "secure_session_data w (sid_of f) = Some s" "s ''doctor'' = Some d"
    "speech_of f \<noteq> []" "is_time_available env d (speech_of f) = (False, c)"
    by simp_all
  show w': "snd (capture_appointment_time env f w) =
            w\<lparr>secure_session_data :=
                (secure_session_data w)(sid_of f \<mapsto> s(''time_text'' \<mapsto> speech_of f)),
              effects := effects w @ c\<rparr>"
    by (rule unavailable_answer(1) [OF h])
  show "map_option (\<lambda>s'. s' ''doctor'')
            (secure_session_data (snd (capture_appointment_time env f w)) (sid_of f))
            = Some (Some d)"
    using h(3) by (simp add: w')
  show "\<forall>resp. fst (capture_appointment_time env f w) = Inr resp \<longrightarrow>
              Gather ''/capture-user-name'' \<notin> set resp"
    using unavailable_answer(2) [OF h] by blast
  show "\<forall>resp. render env (unavailable_prompts d (speech_of f)) = Inr resp \<longrightarrow>
              fst (capture_appointment_time env f w) = Inr resp
              \<and> Gather ''/capture-appointment-time'' \<in> set resp"
    using unavailable_answer(3) [OF h] render_unavailable_gathers_time [of env d "speech_of f"]
    by blast
qed


lemma ex_speech_monday: "speech_of (turn_form c ''Monday at 2 PM'') = ''Monday at 2 PM''"
  by (simp add: string_defs)

lemma ex_speech_blank: "speech_of (turn_form c '' ; '') = []"
  by (simp add: string_defs)

lemma ex_bad_phone: "\<not> re_match_phone (phone_of (turn_form c ''12 ab''))"
  by (simp add: string_defs)

lemma ex_render_unavailable:
  "render example_env (unavailable_prompts ''Smith'' ''Monday at 2 PM'') =
     Inr [Play (Some ''audio:I'm sorry, Dr. Smith is not available at Monday at 2 PM.''),
          Play (Some ''audio:Please say a different date and time.''),
          Gather ''/capture-appointment-time'']"
  by (simp add: unavailable_prompts_def generate_audio_url_def example_env_def)

theorem C1_witness:
  "speech_of (turn_form ''CA1'' '' ; '') = []
   \<and> snd (handle CaptureUserName example_env (turn_form ''CA1'' '' ; '') smith_world) = smith_world
   \<and> \<not> re_match_phone (phone_of (turn_form ''CA1'' ''12 ab''))
   \<and> snd (handle CaptureUserPhone example_env (turn_form ''CA1'' ''12 ab'') jane_world) = jane_world
   \<and> fst (is_time_available example_env ''Smith'' ''Monday at 2 PM'') = False
   \<and> map_option (\<lambda>s. (s ''doctor'', s ''time_text''))
       (secure_session_data
          (snd (capture_appointment_time example_env (turn_form ''CA1'' ''Monday at 2 PM'') smith_world))
          ''CA1'')
      = Some (Some ''Smith'', Some ''Monday at 2 PM'')
   \<and> fst (capture_appointment_time example_env (turn_form ''CA1'' ''Monday at 2 PM'') smith_world) =
       Inr [Play (Some ''audio:I'm sorry, Dr. Smith is not available at Monday at 2 PM.''),
            Play (Some ''audio:Please say a different date and time.''),
            Gather ''/capture-appointment-time'']"
proof -
  have 1: "snd (handle CaptureUserName example_env (turn_form ''CA1'' '' ; '') smith_world) = smith_world"
    using C1_rejected_turns_and_unavailable_slot
      [where r = CaptureUserName and f = "turn_form ''CA1'' '' ; ''" and w = smith_world
         and env = example_env]
      ex_speech_blank [of "''CA1''"]
    by blast
  have 2: "snd (handle CaptureUserPhone example_env (turn_form ''CA1'' ''12 ab'') jane_world) = jane_world"
    using C1_rejected_turns_and_unavailable_slot
      [where r = CaptureUserPhone and f = "turn_form ''CA1'' ''12 ab''" and w = jane_world
         and env = example_env]
      ex_bad_phone [of "''CA1''"]
    by blast
  have s: "secure_session_data smith_world (sid_of (turn_form ''CA1'' ''Monday at 2 PM''))
             = Some [''doctor'' \<mapsto> ''Smith'']"
    by (simp add: ex_sid smith_world_def)
  have d: "[''doctor'' \<mapsto> ''Smith''] ''doctor'' = Some ''Smith''" by simp
  have ne: "sid_of (turn_form ''CA1'' ''Monday at 2 PM'') \<noteq> []"
    "speech_of (turn_form ''CA1'' ''Monday at 2 PM'') \<noteq> []"
    by (simp_all add: ex_sid ex_speech_monday)
  have u: "is_time_available example_env ''Smith'' (speech_of (turn_form ''CA1'' ''Monday at 2 PM''))
           = (False, snd (is_time_available example_env ''Smith'' ''Monday at 2 PM''))"
    by (simp add: ex_speech_monday ex_smith_unavailable)
  note th = C1_rejected_turns_and_unavailable_slot
      [where f = "turn_form ''CA1'' ''Monday at 2 PM''" and w = smith_world and env = example_env
         and s = "[''doctor'' \<mapsto> ''Smith'']" and d = "''Smith''"
         and c = "snd (is_time_available example_env ''Smith'' ''Monday at 2 PM'')",
       THEN conjunct2, rule_format, OF conjI [OF ne(1) conjI [OF s conjI [OF d conjI [OF ne(2) u]]]]]
  from th have 3: "map_option (\<lambda>s. (s ''doctor'', s ''time_text''))
       (secure_session_data
          (snd (capture_appointment_time example_env (turn_form ''CA1'' ''Monday at 2 PM'') smith_world))
          ''CA1'')
      = Some (Some ''Smith'', Some ''Monday at 2 PM'')"
    by (simp add: ex_sid ex_speech_monday)
  from th ex_render_unavailable
  have 4: "fst (capture_appointment_time example_env (turn_form ''CA1'' ''Monday at 2 PM'') smith_world) =
       Inr [Play (Some ''audio:I'm sorry, Dr. Smith is not available at Monday at 2 PM.''),
            Play (Some ''audio:Please say a different date and time.''),
            Gather ''/capture-appointment-time'']"
    by (simp add: ex_speech_monday)
  from 1 2 3 4 show ?thesis
    by (simp add: ex_speech_blank ex_bad_phone ex_smith_unavailable)
qed

text \<open>
  The claim as written fails at the time step: for the session with doctor Smith and the
  request "Monday at 2 PM", which the oracle reports unavailable, the handler has written
  the field \<open>time_text\<close>, absent before.
\<close>

theorem C1_counterexample:
  "fst (is_time_available example_env ''Smith'' ''Monday at 2 PM'') = False
   \<and> map_option (\<lambda>s. s ''time_text'') (secure_session_data smith_world ''CA1'') = Some None
   \<and> map_option (\<lambda>s. s ''time_text'')
       (secure_session_data
          (snd (capture_appointment_time example_env (turn_form ''CA1'' ''Monday at 2 PM'') smith_world))
          ''CA1'')
      = Some (Some ''Monday at 2 PM'')"
proof -
  have s: "secure_session_data smith_world (sid_of (turn_form ''CA1'' ''Monday at 2 PM''))
             = Some [''doctor'' \<mapsto> ''Smith'']"
    by (simp add: ex_sid smith_world_def)
  have ne: "sid_of (turn_form ''CA1'' ''Monday at 2 PM'') \<noteq> []"
    "speech_of (turn_form ''CA1'' ''Monday at 2 PM'') \<noteq> []"
    by (simp_all add: ex_sid ex_speech_monday)
  have u: "is_time_available example_env ''Smith'' (speech_of (turn_form ''CA1'' ''Monday at 2 PM''))
           = (False, snd (is_time_available example_env ''Smith'' ''Monday at 2 PM''))"
    by (simp add: ex_speech_monday ex_smith_unavailable)
  have "[''doctor'' \<mapsto> ''Smith''] ''doctor'' = Some ''Smith''" by simp
  from cat_answered [OF ne(1) s ne(2) this u] show ?thesis
    by (simp add: snd_respond ex_sid ex_speech_monday ex_smith_unavailable smith_world_def)
qed



section \<open>The numeric menu dispatch\<close>

lemma voice_except_shape:
  "voice_except env = Inr r \<Longrightarrow> \<exists>u. r = [Play u, Redirect ''/voice'']"
  by (auto simp: voice_except_def split: sum.splits)

text \<open>The import of the module ends at line 19, whatever the environment holds.\<close>

lemma intent_handler_module_raises: "intent_handler_module env = Inl NameError"
  by (simp add: intent_handler_module_def global_name_def intent_handler_imports_def)

text \<open>
  Every request is answered by the \<^verbatim>\<open>except\<close> block of the handler: non-empty digits raise
  in the sanitizer, and so does a non-empty call identifier; when both are empty the
  handler raises "Missing CallSid". The dispatch on the digit is never reached.
\<close>

lemma selection_always_except: "process_numeric_selection env f = voice_except env"
  by (simp add: process_numeric_selection_def intent_sanitize_input_eq)

lemma ex_voice_except:
  "voice_except example_env =
     Inr [Play (Some ''audio:An error occurred. Please try again later.''), Redirect ''/voice'']"
  by (simp add: voice_except_def generate_audio_url_def example_env_def)

text \<open>
  C8 at the failing input. The menu dispatch leaves the world as it is, but the digit 5
  does not reach the human escalation. The route ends with \<^verbatim>\<open>NameError\<close> for every
  request, because the import of the module reads \<^verbatim>\<open>os\<close>, which the module does not
  import. The body of the handler, taken alone, answers every request by its error
  prompt and a redirect to the top-level menu, because its sanitizer reads \<^verbatim>\<open>re\<close>, which
  the module does not import either: for the digit 5 with the call identifier \<open>CA1\<close> the
  answer holds no \<open>Dial\<close>.
\<close>

theorem C8_digit_five_never_dials:
  "snd (handle ProcessSelection env f w) = w
   \<and> fst (handle ProcessSelection env f w) = Inl NameError
   \<and> process_numeric_selection env f = voice_except env
   \<and> form_get (digits_form ''CA1'' ''5'') ''Digits'' = ''5''
   \<and> intent_sanitize_input ''5'' = Inl NameError
   \<and> process_numeric_selection example_env (digits_form ''CA1'' ''5'') =
       Inr [Play (Some ''audio:An error occurred. Please try again later.''), Redirect ''/voice'']"
  by (simp add: intent_handler_module_raises selection_always_except ex_voice_except
      intent_sanitize_input_eq form_get_def digits_form_def)


section \<open>The Availability Oracle\<close>

lemma available_no_doctor:
  "calendly_sanitize_input doctor = [] \<Longrightarrow> is_time_available env doctor t = (False, [])"
  by (simp add: is_time_available_def is_time_available_body_def)

lemma available_no_time:
  "parse_datetime env t = None \<Longrightarrow> is_time_available env doctor t = (False, [])"
  by (simp add: is_time_available_def is_time_available_body_def Let_def)

lemma available_raised:
  "fst (is_time_available_body env doctor t) = Inl e \<Longrightarrow> fst (is_time_available env doctor t) = False"
  by (cases "is_time_available_body env doctor t") (simp add: is_time_available_def)

lemma available_service_error:
  assumes "\<And>u s e. requests_get env u s e = None
             \<or> (\<exists>c b. requests_get env u s e = Some (c, b) \<and> (c \<noteq> 200 \<or> b = JsonError))"
  shows "fst (is_time_available env doctor t) = False"
proof -
  have "fst (is_time_available_body env doctor t) \<noteq> Inr True"
  proof (cases "calendly_sanitize_input doctor = []")
    case True
    then show ?thesis by (simp add: is_time_available_body_def)
  next
    case d: False
    show ?thesis
    proof (cases "parse_datetime env t")
      case None
      with d show ?thesis by (simp add: is_time_available_body_def Let_def)
    next
      case (Some start_time)
      show ?thesis
      proof (cases "plus_minutes start_time 30")
        case (Inl e)
        with d Some show ?thesis by (simp add: is_time_available_body_def Let_def)
      next
        case (Inr end_time)
        show ?thesis
        proof (cases "DOCTOR_EVENT_MAP env")
          case Nil
          with d Some Inr show ?thesis by (simp add: is_time_available_body_def Let_def)
        next
          case (Cons first rest)
          define uuid where "uuid = (case map_of (first # rest)
                                         (calendly_sanitize_input doctor, ''general'') of
                               None \<Rightarrow> snd first | Some u \<Rightarrow> u)"
          let ?call = "[ScheduledEventsGet uuid start_time end_time]"
          have body: "is_time_available_body env doctor t =
              (case requests_get env uuid start_time end_time of
                 None \<Rightarrow> (Inl RequestError, ?call)
               | Some (status_code, b) \<Rightarrow>
                   if status_code = 200 then
                     (case b of
                        JsonError \<Rightarrow> (Inl RequestError, ?call)
                      | Collection events \<Rightarrow> (Inr (events = []), ?call)
                      | NoCollection \<Rightarrow> (Inr True, ?call))
                   else (Inr False, ?call))"
            using d Some Inr Cons unfolding uuid_def
            by (simp add: is_time_available_body_def Let_def del: map_of.simps)
          from assms [of uuid start_time end_time] show ?thesis
            by (auto simp: body split: if_splits)
        qed
      qed
    qed
  qed
  then show ?thesis
    by (cases "is_time_available_body env doctor t"; cases "fst (is_time_available_body env doctor t)")
       (auto simp: is_time_available_def)
qed

lemma available_empty_table:
  "DOCTOR_EVENT_MAP env = [] \<Longrightarrow> fst (is_time_available env doctor t) = False"
  by (auto simp: is_time_available_def is_time_available_body_def Let_def
      split: option.splits sum.splits)

lemma parse_no_at:
  "fromisoformat env t = None \<Longrightarrow> \<not> contains '' at '' (lower t) \<Longrightarrow> parse_datetime env t = None"
  by (simp add: parse_datetime_def parse_day_at_hour_def Let_def)

lemma parse_unknown_day:
  assumes "fromisoformat env t = None" "split_pair '' at '' (lower t) = Inr (day, time)"
    and "day_map (strip day) = None"
  shows "parse_datetime env t = None"
  using assms
  by (simp add: parse_datetime_def parse_day_at_hour_def Let_def split: sum.splits)


text \<open>
  C10. \<^verbatim>\<open>is_time_available\<close> answers \<open>False\<close>, without a call, when the sanitized doctor
  name is empty and when \<^verbatim>\<open>_parse_datetime\<close> gives no time (as it does for a text that is
  neither in ISO format nor holds " at "); it answers \<open>False\<close> for every exception raised
  inside it, when the event table is empty, and when the scheduling service fails on the
  query (the request raises, the status is not 200, or the body cannot be read). It has no
  other outcome than \<open>True\<close> or \<open>False\<close>. The time step then treats the input as an
  unavailable slot: it never gathers the name, and when its prompts are rendered it asks
  for another time.
\<close>

theorem C10_false_rather_than_raising:
  "(calendly_sanitize_input doctor = [] \<or> parse_datetime env t = None
      \<longrightarrow> is_time_available env doctor t = (False, []))
   \<and> (\<forall>e. fst (is_time_available_body env doctor t) = Inl e
        \<longrightarrow> fst (is_time_available env doctor t) = False)
   \<and> (DOCTOR_EVENT_MAP env = []
       \<or> (\<forall>u s e. requests_get env u s e = None
              \<or> (\<exists>c b. requests_get env u s e = Some (c, b) \<and> (c \<noteq> 200 \<or> b = JsonError)))
      \<longrightarrow> fst (is_time_available env doctor t) = False)
   \<and> (fromisoformat env t = None \<and> \<not> contains '' at '' (lower t)
      \<longrightarrow> parse_datetime env t = None)
   \<and> (sid_of f \<noteq> [] \<and> secure_session_data w (sid_of f) = Some s \<and> s ''doctor'' = Some d
        \<and> speech_of f \<noteq> [] \<and> fst (is_time_available env d (speech_of f)) = False
      \<longrightarrow> (\<forall>resp. fst (capture_appointment_time env f w) = Inr resp \<longrightarrow>
               Gather ''/capture-user-name'' \<notin> set resp)
        \<and> (\<forall>resp. render env (unavailable_prompts d (speech_of f)) = Inr resp \<longrightarrow>
               fst (capture_appointment_time env f w) = Inr resp))"
proof (intro conjI impI allI)
  assume "calendly_sanitize_input doctor = [] \<or> parse_datetime env t = None"
  then show "is_time_available env doctor t = (False, [])"
    using available_no_doctor available_no_time by blast
next
  fix e assume "fst (is_time_available_body env doctor t) = Inl e"
  then show "fst (is_time_available env doctor t) = False" by (rule available_raised)
next
  assume "DOCTOR_EVENT_MAP env = []
       \<or> (\<forall>u s e. requests_get env u s e = None
              \<or> (\<exists>c b. requests_get env u s e = Some (c, b) \<and> (c \<noteq> 200 \<or> b = JsonError)))"
  then show "fst (is_time_available env doctor t) = False"
    using available_empty_table [of env doctor t] available_service_error [of env doctor t]
    by blast
next
  assume "fromisoformat env t = None \<and> \<not> contains '' at '' (lower t)"
  then show "parse_datetime env t = None" by (simp add: parse_no_at)
next
  fix resp
  assume a: "sid_of f \<noteq> [] \<and> secure_session_data w (sid_of f) = Some s \<and> s ''doctor'' = Some d
        \<and> speech_of f \<noteq> [] \<and> fst (is_time_available env d (speech_of f)) = False"
  then have u: "is_time_available env d (speech_of f)
                  = (False, snd (is_time_available env d (speech_of f)))"
    by (simp add: prod_eq_iff)
  assume "fst (capture_appointment_time env f w) = Inr resp"
  with a u show "Gather ''/capture-user-name'' \<notin> set resp"
    using unavailable_answer(2) [of f w s d env] by blast
next
  fix resp
  assume a: "sid_of f \<noteq> [] \<and> secure_session_data w (sid_of f) = Some s \<and> s ''doctor'' = Some d
        \<and> speech_of f \<noteq> [] \<and> fst (is_time_available env d (speech_of f)) = False"
  then have u: "is_time_available env d (speech_of f)
                  = (False, snd (is_time_available env d (speech_of f)))"
    by (simp add: prod_eq_iff)
  assume "render env (unavailable_prompts d (speech_of f)) = Inr resp"
  with a u show "fst (capture_appointment_time env f w) = Inr resp"
    using unavailable_answer(3) [of f w s d env] by blast
qed

lemma ex_parse_tomorrow: "parse_datetime example_env ''tomorrow'' = None"
  by (simp add: parse_datetime_def parse_day_at_hour_def contains_def example_env_def
      string_defs Let_def)

lemma ex_speech_tomorrow: "speech_of (turn_form c ''tomorrow'') = ''tomorrow''"
  by (simp add: string_defs)

lemma ex_render_unavailable_tomorrow:
  "render example_env (unavailable_prompts ''Smith'' ''tomorrow'') =
     Inr [Play (Some ''audio:I'm sorry, Dr. Smith is not available at tomorrow.''),
          Play (Some ''audio:Please say a different date and time.''),
          Gather ''/capture-appointment-time'']"
  by (simp add: unavailable_prompts_def generate_audio_url_def example_env_def)

lemma ex_unreachable_raises:
  "fst (is_time_available_body unreachable_env ''Patel'' ''2025-06-10T14:00:00'') = Inl RequestError"
  by (simp add: is_time_available_body_def parse_datetime_def plus_minutes_def MAXORDINAL_def
      unreachable_env_def example_env_def Let_def string_defs)

lemma ex_tomorrow_shape:
  "fromisoformat example_env ''tomorrow'' = None" "\<not> contains '' at '' (lower ''tomorrow'')"
  by (simp_all add: example_env_def contains_def string_defs)

theorem C10_witness:
  "calendly_sanitize_input ''<>'' = []
   \<and> is_time_available example_env ''<>'' ''Monday at 2 PM'' = (False, [])
   \<and> fromisoformat example_env ''tomorrow'' = None
   \<and> \<not> contains '' at '' (lower ''tomorrow'')
   \<and> parse_datetime example_env ''tomorrow'' = None
   \<and> is_time_available example_env ''Smith'' ''tomorrow'' = (False, [])
   \<and> fst (is_time_available_body unreachable_env ''Patel'' ''2025-06-10T14:00:00'') = Inl RequestError
   \<and> fst (is_time_available unreachable_env ''Patel'' ''2025-06-10T14:00:00'') = False
   \<and> fst (is_time_available unreachable_env ''Smith'' ''Monday at 2 PM'') = False
   \<and> fst (capture_appointment_time example_env (turn_form ''CA1'' ''tomorrow'') smith_world) =
       Inr [Play (Some ''audio:I'm sorry, Dr. Smith is not available at tomorrow.''),
            Play (Some ''audio:Please say a different date and time.''),
            Gather ''/capture-appointment-time'']"
proof -
  have d0: "calendly_sanitize_input ''<>'' = []" by (simp add: string_defs)
  have 1: "is_time_available example_env ''<>'' ''Monday at 2 PM'' = (False, [])"
    using C10_false_rather_than_raising [where env = example_env and doctor = "''<>''"
        and t = "''Monday at 2 PM''"] d0
    by blast
  have p: "parse_datetime example_env ''tomorrow'' = None"
    using C10_false_rather_than_raising [where env = example_env and t = "''tomorrow''"]
      ex_tomorrow_shape
    by blast
  have 2: "is_time_available example_env ''Smith'' ''tomorrow'' = (False, [])"
    using C10_false_rather_than_raising [where env = example_env and doctor = "''Smith''"
        and t = "''tomorrow''"] p
    by blast
  have 3: "fst (is_time_available unreachable_env ''Patel'' ''2025-06-10T14:00:00'') = False"
    using C10_false_rather_than_raising [where env = unreachable_env and doctor = "''Patel''"
        and t = "''2025-06-10T14:00:00''"] ex_unreachable_raises
    by blast
  have down: "\<forall>u s e. requests_get unreachable_env u s e = None
              \<or> (\<exists>c b. requests_get unreachable_env u s e = Some (c, b) \<and> (c \<noteq> 200 \<or> b = JsonError))"
    by (simp add: unreachable_env_def)
  have 4: "fst (is_time_available unreachable_env ''Smith'' ''Monday at 2 PM'') = False"
    using C10_false_rather_than_raising [where env = unreachable_env and doctor = "''Smith''"
        and t = "''Monday at 2 PM''"] down
    by blast
  have s: "secure_session_data smith_world (sid_of (turn_form ''CA1'' ''tomorrow''))
             = Some [''doctor'' \<mapsto> ''Smith'']"
    by (simp add: ex_sid smith_world_def)
  have d: "[''doctor'' \<mapsto> ''Smith''] ''doctor'' = Some ''Smith''" by simp
  have ne: "sid_of (turn_form ''CA1'' ''tomorrow'') \<noteq> []"
    "speech_of (turn_form ''CA1'' ''tomorrow'') \<noteq> []"
    by (simp_all add: ex_sid ex_speech_tomorrow)
  have u: "fst (is_time_available example_env ''Smith'' (speech_of (turn_form ''CA1'' ''tomorrow''))) = False"
    by (simp add: ex_speech_tomorrow 2)
  have r: "render example_env (unavailable_prompts ''Smith'' (speech_of (turn_form ''CA1'' ''tomorrow''))) =
     Inr [Play (Some ''audio:I'm sorry, Dr. Smith is not available at tomorrow.''),
          Play (Some ''audio:Please say a different date and time.''),
          Gather ''/capture-appointment-time'']"
    by (simp add: ex_speech_tomorrow ex_render_unavailable_tomorrow)
  have 5: "fst (capture_appointment_time example_env (turn_form ''CA1'' ''tomorrow'') smith_world) =
       Inr [Play (Some ''audio:I'm sorry, Dr. Smith is not available at tomorrow.''),
            Play (Some ''audio:Please say a different date and time.''),
            Gather ''/capture-appointment-time'']"
    using C10_false_rather_than_raising [where env = example_env
        and f = "turn_form ''CA1'' ''tomorrow''" and w = smith_world
        and s = "[''doctor'' \<mapsto> ''Smith'']" and d = "''Smith''"] ne s d u r
    by blast
  from d0 1 p 2 3 4 5 ex_tomorrow_shape ex_unreachable_raises show ?thesis by simp
qed



section \<open>The phone step\<close>

lemma re_match_phone_iff:
  "re_match_phone p \<longleftrightarrow> e164 p \<or> (\<exists>q. p = q @ [CHR 0x0A] \<and> e164 q)"
proof (cases "p \<noteq> [] \<and> last p = CHR 0x0A")
  case True
  then have p: "p = butlast p @ [CHR 0x0A]" by (metis append_butlast_last_id)
  have "\<not> e164 p"
  proof
    assume e: "e164 p"
    have nd: "\<not> isdigit (CHR 0x0A)" "CHR 0x0A \<notin> set ''123456789''" by (simp_all add: isdigit_def)
    from True have lp: "last p = CHR 0x0A" "p \<noteq> []" by simp_all
    from e lp nd show False
      by (auto simp: e164_def list_all_iff split: list.splits if_splits)
         (metis last_ConsR last_in_set last_ConsL)+
  qed
  moreover have "(\<exists>q. p = q @ [CHR 0x0A] \<and> e164 q) \<longleftrightarrow> e164 (butlast p)"
    using p by (metis butlast_snoc)
  ultimately show ?thesis using True by (simp add: re_match_phone_def)
next
  case False
  then have "\<not> (\<exists>q. p = q @ [CHR 0x0A])" by auto
  with False show ?thesis by (auto simp: re_match_phone_def)
qed

text \<open>A phone is committed only when it matches the handler's pattern: the E.164-like
  pattern, or that pattern followed by one line feed.\<close>

lemma phone_committed_only_if_matched:
  assumes "secure_session_data (snd (capture_user_phone env f w)) \<noteq> secure_session_data w"
  shows "re_match_phone (phone_of f)
       \<and> (e164 (phone_of f) \<or> (\<exists>q. phone_of f = q @ [CHR 0x0A] \<and> e164 q))
       \<and> (\<exists>s. secure_session_data w (sid_of f) = Some s
             \<and> secure_session_data (snd (capture_user_phone env f w))
                 = (secure_session_data w)(sid_of f \<mapsto> s(''phone'' \<mapsto> phone_of f)))"
  using capture_user_phone_store [of env f w] assms re_match_phone_iff [of "phone_of f"]
  by blast

text \<open>A step that completes had a session with a phone, and the phone of the validated
  guest record, which is the trimmed phone of the session, matches the E.164-like pattern.\<close>

lemma validate_input_phone:
  "validate_input env g = Some v \<Longrightarrow> phone v = sanitize_string (phone g) \<and> e164 (phone v)"
  by (auto simp: validate_input_def Let_def split: if_splits option.splits)

lemma completed_needs_valid_phone:
  assumes "completed (fst (capture_user_address env f w))"
  shows "\<exists>s p. secure_session_data w (sid_of f) = Some s \<and> s ''phone'' = Some p
              \<and> e164 (sanitize_string p)"
proof (cases rule: capture_user_address_cases [where env = env and f = f and w = w])
  case rejected
  with assms show ?thesis by (simp add: not_completed_booking_except)
next
  case (failed sid s a c)
  with assms show ?thesis by (simp add: not_completed_booking_except)
next
  case (booked sid s a n p d t g r1 l c1 sent c2 r2)
  from validate_input_phone [OF booked(10)] have "e164 (sanitize_string p)"
    by (auto simp: guest_data_def)
  with booked(1,3,7) show ?thesis by blast
qed


lemma ex_lf_phone: "phone_of (turn_form c lf_speech) = lf_phone"
  by (simp add: lf_speech_def lf_phone_def string_defs)

lemma ex_lf_matches: "re_match_phone lf_phone" "\<not> e164 lf_phone"
  by (simp_all add: lf_phone_def string_defs)

lemma ex_lf_world:
  "snd (capture_user_phone example_env (turn_form ''CA1'' lf_speech) jane_world) =
     jane_world\<lparr>secure_session_data :=
       (secure_session_data jane_world)(''CA1'' \<mapsto> jane_session(''phone'' \<mapsto> lf_phone))\<rparr>"
proof -
  have 1: "sid_of (turn_form ''CA1'' lf_speech) \<noteq> []" by (simp add: ex_sid)
  have 2: "secure_session_data jane_world (sid_of (turn_form ''CA1'' lf_speech)) = Some jane_session"
    by (simp add: ex_sid jane_world_def)
  have 3: "re_match_phone (phone_of (turn_form ''CA1'' lf_speech))"
    by (simp add: ex_lf_phone ex_lf_matches)
  show ?thesis
    by (simp add: cup_stored [OF 1 2 3] snd_respond ex_sid ex_lf_phone)
qed

lemma ex_lf_validate:
  "validate_input example_env (guest_data ''Jane Doe'' lf_phone ''Patel'' ''2025-06-10T14:00:00'') =
   Some \<lparr>name = ''Jane Doe'', email = ''jane.doe@example.com'', phone = ''15551234567'',
         purpose = ''Appointment with Dr. Patel at 2025-06-10T14:00:00''\<rparr>"
  by (simp add: validate_input_def guest_data_def example_env_def lf_phone_def string_defs)

lemma ex_lf_render:
  "\<exists>r1. render example_env
     (confirming_prompts ''Jane Doe'' lf_phone ''Patel'' ''2025-06-10T14:00:00'' ''1 Main St'') = Inr r1"
  by (rule render_total) (simp add: example_env_def)

text \<open>
  C6 at the failing input. The speech result "15551234567", a line feed, ";" passes the
  phone step: the handler's \<^verbatim>\<open>re.match\<close> accepts the sanitized value, which ends in the
  line feed and so is not of the E.164-like shape, and commits it. The session then
  completes: the finalizer trims the phone before it checks the guest record.
\<close>

theorem C6_phone_with_line_feed_committed:
  "phone_of (turn_form ''CA1'' lf_speech) = lf_phone
   \<and> \<not> e164 lf_phone
   \<and> map_option (\<lambda>s. s ''phone'')
       (secure_session_data
          (snd (capture_user_phone example_env (turn_form ''CA1'' lf_speech) jane_world)) ''CA1'')
     = Some (Some lf_phone)
   \<and> completed
       (fst (capture_user_address example_env (turn_form ''CA1'' ''1 Main St'')
               (snd (capture_user_phone example_env (turn_form ''CA1'' lf_speech) jane_world))))"
proof -
  let ?w = "jane_world\<lparr>secure_session_data :=
       (secure_session_data jane_world)(''CA1'' \<mapsto> jane_session(''phone'' \<mapsto> lf_phone))\<rparr>"
  let ?g = "\<lparr>name = ''Jane Doe'', email = ''jane.doe@example.com'', phone = ''15551234567'',
         purpose = ''Appointment with Dr. Patel at 2025-06-10T14:00:00''\<rparr>"
  obtain r1 where r1: "render example_env
     (confirming_prompts ''Jane Doe'' lf_phone ''Patel'' ''2025-06-10T14:00:00'' ''1 Main St'') = Inr r1"
    using ex_lf_render by blast
  have ne: "''CA1'' \<noteq> []" "''1 Main St'' \<noteq> []" "''https://calendly.example/b1'' \<noteq> []"
    by simp_all
  have s: "secure_session_data ?w ''CA1'' = Some (jane_session(''phone'' \<mapsto> lf_phone))"
    by simp
  have flds: "(jane_session(''phone'' \<mapsto> lf_phone)) ''name'' = Some ''Jane Doe''"
    "(jane_session(''phone'' \<mapsto> lf_phone)) ''phone'' = Some lf_phone"
    "(jane_session(''phone'' \<mapsto> lf_phone)) ''doctor'' = Some ''Patel''"
    "(jane_session(''phone'' \<mapsto> lf_phone)) ''time_text'' = Some ''2025-06-10T14:00:00''"
    by (simp_all add: jane_session_def)
  have cr: "create_calendly_appointment example_env ''Patel'' ''general'' ''Jane Doe'' (email ?g)
       ''2025-06-10T14:00:00'' =
     (Some ''https://calendly.example/b1'',
      snd (create_calendly_appointment example_env ''Patel'' ''general'' ''Jane Doe''
             (email ?g) ''2025-06-10T14:00:00''))"
    using ex_create by simp
  have sms: "send_confirmation_sms example_env lf_phone ''Patel'' ''2025-06-10T14:00:00''
               ''https://calendly.example/b1'' =
               (fst (send_confirmation_sms example_env lf_phone ''Patel'' ''2025-06-10T14:00:00''
                       ''https://calendly.example/b1''),
                snd (send_confirmation_sms example_env lf_phone ''Patel'' ''2025-06-10T14:00:00''
                       ''https://calendly.example/b1''))"
    by simp
  note b = cua_booked [OF ex_sid ne(1) s ex_address ne(2) flds ex_lf_validate r1 cr ne(3) sms
      ex_render_booked]
  have c: "completed (fst (capture_user_address example_env (turn_form ''CA1'' ''1 Main St'') ?w))"
    by (simp add: b completed_def)
  show ?thesis
    using c by (simp add: ex_lf_world ex_lf_phone ex_lf_matches)
qed

end
